theory Spec2Isabelle
  imports Complex_Main
begin

section \<open>Numbers, vectors and boxes\<close>

text \<open>
  The program computes in C \<open>double\<close>. The embedding idealises a \<open>double\<close> as a
  \<^typ>\<open>real\<close>: rounding, infinities and NaN are not modelled, so every statement below
  is about the exact arithmetic the code approximates. \<open>DBL_MAX\<close> of \<open>float.h\<close> keeps
  its IEEE 754 binary64 value.

  A \<open>PyVector2\<close> is a \<open>Py_complex\<close>, a struct of the two doubles \<open>real\<close> and
  \<open>imag\<close>; it is the pair \<open>(real, imag)\<close>, read with \<^const>\<open>fst\<close> and \<^const>\<open>snd\<close>.
\<close>

type_synonym PyVector2 = "real \<times> real"

definition DBL_MAX :: real where
  "DBL_MAX = (2 ^ 53 - 1) * 2 ^ 971"

definition MAX_CONTACTS :: nat where
  "MAX_CONTACTS = 16"

text \<open>
  Modelled from the spec: the vector primitives of \<open>pgVector2.h\<close> are not part of the
  source file. Section 2 of the specification names them: "2D vector arithmetic,
  dot/cross, rotation by angle"; section 4.4 fixes the two cross products: between two
  vectors it "yields a scalar (the z-component of the 3D cross)", and "the
  scalar-times-2D-vector cross is the standard planar equivalent".
\<close>

definition c_sum :: "PyVector2 \<Rightarrow> PyVector2 \<Rightarrow> PyVector2" where
  "c_sum a b = (fst a + fst b, snd a + snd b)"

definition c_diff :: "PyVector2 \<Rightarrow> PyVector2 \<Rightarrow> PyVector2" where
  "c_diff a b = (fst a - fst b, snd a - snd b)"

definition PyVector2_Dot :: "PyVector2 \<Rightarrow> PyVector2 \<Rightarrow> real" where
  "PyVector2_Dot a b = fst a * fst b + snd a * snd b"

definition PyVector2_Cross :: "PyVector2 \<Rightarrow> PyVector2 \<Rightarrow> real" where
  "PyVector2_Cross a b = fst a * snd b - snd a * fst b"

definition PyVector2_fCross :: "real \<Rightarrow> PyVector2 \<Rightarrow> PyVector2" where
  "PyVector2_fCross f v = (- f * snd v, f * fst v)"

definition PyVector2_Rotate :: "PyVector2 \<Rightarrow> real \<Rightarrow> PyVector2" where
  "PyVector2_Rotate v a = (fst v * cos a - snd v * sin a, fst v * sin a + snd v * cos a)"

text \<open>
  Modelled from the spec: the tolerance comparisons of \<open>pgHelpFunctions.h\<close> and
  \<open>pgVector2.h\<close> are not part of the source file. Section 7 of the specification gives
  the comparison as \<open>|a - b| < \<epsilon>\<close> with \<open>\<epsilon>\<close> "fixed at 1e-9 absolute" (section 9);
  two vectors are equal when both coordinates are.
\<close>

definition NEAR_EPSILON :: real where
  "NEAR_EPSILON = 1 / 10 ^ 9"

definition PyMath_IsNearEqual :: "real \<Rightarrow> real \<Rightarrow> bool" where
  "PyMath_IsNearEqual a b \<longleftrightarrow> \<bar>a - b\<bar> < NEAR_EPSILON"

definition PyVector2_Equal :: "PyVector2 \<Rightarrow> PyVector2 \<Rightarrow> bool" where
  "PyVector2_Equal a b \<longleftrightarrow> PyMath_IsNearEqual (fst a) (fst b) \<and> PyMath_IsNearEqual (snd a) (snd b)"

record AABBBox =
  left :: real
  right :: real
  bottom :: real
  top' :: real

text \<open>
  Modelled from the spec: the box helpers of \<open>pgAABBBox.h\<close> are not part of the source
  file. Section 2 of the specification names them: "construction from extremes,
  point-in-box test with tolerance, expansion by point"; section 4.7 has the box rebuilt
  by "expanding an empty box" over the corners. The arguments of \<open>AABB_Gen\<close> are taken
  in the order the source passes them: left, right, bottom, top.
\<close>

definition AABB_Gen :: "real \<Rightarrow> real \<Rightarrow> real \<Rightarrow> real \<Rightarrow> AABBBox" where
  "AABB_Gen l r b t = \<lparr>left = l, right = r, bottom = b, top' = t\<rparr>"

definition AABB_Clear :: "AABBBox \<Rightarrow> AABBBox" where
  "AABB_Clear bx = \<lparr>left = DBL_MAX, right = - DBL_MAX, bottom = DBL_MAX, top' = - DBL_MAX\<rparr>"

definition AABB_ExpandTo :: "AABBBox \<Rightarrow> PyVector2 \<Rightarrow> AABBBox" where
  "AABB_ExpandTo bx p =
     \<lparr>left = min (left bx) (fst p), right = max (right bx) (fst p),
      bottom = min (bottom bx) (snd p), top' = max (top' bx) (snd p)\<rparr>"

definition AABB_IsIn :: "PyVector2 \<Rightarrow> AABBBox \<Rightarrow> real \<Rightarrow> bool" where
  "AABB_IsIn p bx eps \<longleftrightarrow>
     left bx - eps < fst p \<and> fst p < right bx + eps \<and>
     bottom bx - eps < snd p \<and> snd p < top' bx + eps"

section \<open>Shapes and bodies\<close>

text \<open>
  The headers that declare the structs are not part of the source file; the records hold
  the fields the source file reads and writes, under the names it uses. Only the tag
  \<open>ST_RECT\<close> of the shape-type enum occurs in the source; \<open>ST_OTHER\<close> stands for
  every other tag. A body's \<open>shape\<close> is an object pointer that the source casts to
  \<open>PyRectShapeObject*\<close>; the model stores the rectangle record in the body, so two
  bodies never share one shape. The function pointers \<open>Collision\<close> and
  \<open>UpdateAABB\<close> of a shape belong to the dispatcher and are left out.
\<close>

datatype ShapeType = ST_RECT | ST_OTHER

record PyShapeObject =
  box :: AABBBox
  rInertia :: real
  type :: ShapeType

record PyRectShapeObject = PyShapeObject +
  bottomleft :: PyVector2
  bottomright :: PyVector2
  topright :: PyVector2
  topleft :: PyVector2

record PyBodyObject =
  fMass :: real
  vecPosition :: PyVector2
  fRotation :: real
  shape :: PyRectShapeObject

text \<open>
  Modelled from the spec: the two coordinate transforms of \<open>pgBodyObject.h\<close> are not
  part of the source file. Section 6 of the specification:
  \<open>local_to_world(body, local_point) -> world_point\<close>, and
  \<open>body_to_body_local(target, source, point_in_source_local)\<close>, "equivalent to applying
  source's world transform then the inverse of target's". The world transform of a body
  rotates by its angle and then translates by its position (section 4.4, steps 2 and 3).
\<close>

definition PyBodyObject_GetGlobalPos :: "PyBodyObject \<Rightarrow> PyVector2 \<Rightarrow> PyVector2" where
  "PyBodyObject_GetGlobalPos body p =
     c_sum (PyVector2_Rotate p (fRotation body)) (vecPosition body)"

definition PyBodyObject_GetRelativePos ::
  "PyBodyObject \<Rightarrow> PyBodyObject \<Rightarrow> PyVector2 \<Rightarrow> PyVector2" where
  "PyBodyObject_GetRelativePos target source p =
     PyVector2_Rotate (c_diff (PyBodyObject_GetGlobalPos source p) (vecPosition target))
       (- fRotation target)"

text \<open>
  \<open>_RectShape_InitInternal\<close>: the four corners of the canonical rectangle, each rotated
  by \<open>seta\<close>. The other fields of the shape are left as they are.
\<close>

definition RectShape_InitInternal ::
  "PyRectShapeObject \<Rightarrow> real \<Rightarrow> real \<Rightarrow> real \<Rightarrow> PyRectShapeObject" where
  "RectShape_InitInternal shp width height seta =
     shp\<lparr>bottomleft := PyVector2_Rotate (- width / 2, - height / 2) seta,
         bottomright := PyVector2_Rotate (width / 2, - height / 2) seta,
         topright := PyVector2_Rotate (width / 2, height / 2) seta,
         topleft := PyVector2_Rotate (- width / 2, height / 2) seta\<rparr>"

text \<open>
  \<open>_ShapeNew\<close> followed by the assignments of \<open>_RectShapeNew\<close>: a zeroed box, zero
  inertia and the tag \<open>ST_RECT\<close>. The allocator zeroes the corners.
\<close>

definition RectShapeNew :: PyRectShapeObject where
  "RectShapeNew =
     \<lparr>box = \<lparr>left = 0, right = 0, bottom = 0, top' = 0\<rparr>, rInertia = 0, type = ST_RECT,
      bottomleft = (0, 0), bottomright = (0, 0), topright = (0, 0), topleft = (0, 0)\<rparr>"

definition PyRectShape_New :: "real \<Rightarrow> real \<Rightarrow> real \<Rightarrow> PyRectShapeObject" where
  "PyRectShape_New width height seta = RectShape_InitInternal RectShapeNew width height seta"

text \<open>
  \<open>_RectShapeUpdateAABB\<close>: the body is returned with the box of its shape rebuilt; a
  body whose shape is not tagged \<open>ST_RECT\<close> is returned as it came.
\<close>

definition RectShapeUpdateAABB :: "PyBodyObject \<Rightarrow> PyBodyObject" where
  "RectShapeUpdateAABB body =
     (if type (shape body) = ST_RECT then
        (let p = shape body;
             gp = [PyBodyObject_GetGlobalPos body (bottomleft p),
                   PyBodyObject_GetGlobalPos body (bottomright p),
                   PyBodyObject_GetGlobalPos body (topright p),
                   PyBodyObject_GetGlobalPos body (topleft p)]
         in body\<lparr>shape := p\<lparr>box := foldl AABB_ExpandTo (AABB_Clear (box p)) gp\<rparr>\<rparr>)
      else body)"

section \<open>The segment clipper\<close>

text \<open>
  Modelled from the spec: \<open>Collision_LiangBarskey\<close> of \<open>pgCollision.h\<close> is not part of
  the source file. Section 4.1 of the specification: "Liang-Barsky parametric clipping.
  Compute entering and leaving parameters against each of the four box edges; if the
  intervals do not overlap, reject. Otherwise produce clipped endpoints from the parameter
  values." \<open>clip_boundary\<close> narrows the parameter interval \<open>(u1, u2)\<close> against one
  box edge: with direction coefficient \<open>p\<close> and offset \<open>q\<close> the segment point at
  parameter \<open>u\<close> is on the inner side when \<open>p * u \<le> q\<close>. The interval starts as
  \<open>[0, 1]\<close>. The result \<open>None\<close> is the return value 0 of the source,
  \<open>Some (pf, pt)\<close> is the return value 1 with the two output points.
\<close>

definition clip_boundary :: "real \<Rightarrow> real \<Rightarrow> real \<times> real \<Rightarrow> (real \<times> real) option" where
  "clip_boundary p q u =
     (if p < 0 then
        (if q / p > snd u then None else Some (max (fst u) (q / p), snd u))
      else if p > 0 then
        (if q / p < fst u then None else Some (fst u, min (snd u) (q / p)))
      else if q < 0 then None
      else Some u)"

definition Collision_LiangBarskey ::
  "AABBBox \<Rightarrow> PyVector2 \<Rightarrow> PyVector2 \<Rightarrow> (PyVector2 \<times> PyVector2) option" where
  "Collision_LiangBarskey bx p1 p2 =
     (let dp = c_diff p2 p1 in
      case Option.bind (Option.bind (Option.bind
             (clip_boundary (- fst dp) (fst p1 - left bx) (0, 1))
             (clip_boundary (fst dp) (right bx - fst p1)))
             (clip_boundary (- snd dp) (snd p1 - bottom bx)))
             (clip_boundary (snd dp) (top' bx - snd p1)) of
        None \<Rightarrow> None
      | Some u \<Rightarrow>
          if fst u > snd u then None
          else Some (c_sum p1 (fst u * fst dp, fst u * snd dp),
                     c_sum p1 (snd u * fst dp, snd u * snd dp)))"

section \<open>The candidate buffer\<close>

text \<open>
  \<open>_Candidate\<close> holds two arrays of \<open>MAX_CONTACTS\<close> slots and the count
  \<open>contact_size\<close> of the slots in use. The model keeps the slots in use as the list
  \<open>contacts\<close>, so \<open>contact_size\<close> is its length, and the factors written by the last
  loop of \<open>_SATFindCollisionProperty\<close> as the list \<open>kFactors\<close>. A store
  \<open>candi->contacts[candi->contact_size++] = p\<close> into a full buffer writes past the
  array in C; the model returns \<open>Buffer_overflow\<close> there. \<open>Face_unset\<close> is the
  \<open>assert(0)\<close> of the face switch.
\<close>

datatype error = Buffer_overflow | Face_unset

record Candidate =
  normal :: PyVector2
  contacts :: "PyVector2 list"
  kFactors :: "real list"
  min_depth :: real

definition contact_size :: "Candidate \<Rightarrow> nat" where
  "contact_size candi = length (contacts candi)"

definition store_contact :: "Candidate \<Rightarrow> PyVector2 \<Rightarrow> error + Candidate" where
  "store_contact candi p =
     (if contact_size candi < MAX_CONTACTS then Inr (candi\<lparr>contacts := contacts candi @ [p]\<rparr>)
      else Inl Buffer_overflow)"

text \<open>A \<open>for\<close> loop over the items \<open>is\<close> whose body may fail; it stops at the first failure.\<close>

fun for_each :: "('i \<Rightarrow> 's \<Rightarrow> error + 's) \<Rightarrow> 'i list \<Rightarrow> 's \<Rightarrow> error + 's" where
  "for_each body [] s = Inr s"
| "for_each body (i # is) s =
     (case body i s of Inl e \<Rightarrow> Inl e | Inr s' \<Rightarrow> for_each body is s')"

section \<open>The rectangle clipping pass\<close>

text \<open>
  \<open>_ClipTest\<close>. The loop state is \<open>(apart, has_ip, candi)\<close>; \<open>points\<close> is the array
  of four corners. \<open>ClipTest_end\<close> is one of the two endpoint branches of the loop body:
  flag the vertex \<open>j\<close> when the clipped point is the vertex, store the clipped point
  otherwise.
\<close>

definition ClipTest_end ::
  "PyVector2 list \<Rightarrow> PyVector2 \<Rightarrow> nat \<Rightarrow> bool list \<times> Candidate \<Rightarrow> error + (bool list \<times> Candidate)" where
  "ClipTest_end points q j st =
     (if PyVector2_Equal q (points ! j) then Inr ((fst st)[j := True], snd st)
      else case store_contact (snd st) q of
             Inl e \<Rightarrow> Inl e
           | Inr candi \<Rightarrow> Inr (fst st, candi))"

definition ClipTest_edge ::
  "AABBBox \<Rightarrow> PyVector2 list \<Rightarrow> nat \<Rightarrow> int \<times> bool list \<times> Candidate
     \<Rightarrow> error + (int \<times> bool list \<times> Candidate)" where
  "ClipTest_edge bx points i st =
     (let i1 = (i + 1) mod 4 in
      case Collision_LiangBarskey bx (points ! i) (points ! i1) of
        None \<Rightarrow> Inr st
      | Some (pf, pt) \<Rightarrow>
          (case ClipTest_end points pf i (snd st) of
             Inl e \<Rightarrow> Inl e
           | Inr st1 \<Rightarrow>
               (case ClipTest_end points pt i1 st1 of
                  Inl e \<Rightarrow> Inl e
                | Inr st2 \<Rightarrow> Inr (0, st2))))"

definition ClipTest_vertex ::
  "PyVector2 list \<Rightarrow> bool list \<Rightarrow> nat \<Rightarrow> Candidate \<Rightarrow> error + Candidate" where
  "ClipTest_vertex points has_ip i candi =
     (if has_ip ! i then store_contact candi (points ! i) else Inr candi)"

definition ClipTest ::
  "AABBBox \<Rightarrow> PyVector2 list \<Rightarrow> Candidate \<Rightarrow> error + (int \<times> Candidate)" where
  "ClipTest bx points candi =
     (case for_each (ClipTest_edge bx points) [0, 1, 2, 3]
             (1, replicate 4 False, candi\<lparr>contacts := []\<rparr>) of
        Inl e \<Rightarrow> Inl e
      | Inr (apart, has_ip, candi1) \<Rightarrow>
          if apart \<noteq> 0 then Inr (0, candi1)
          else (case for_each (ClipTest_vertex points has_ip) [0, 1, 2, 3] candi1 of
                  Inl e \<Rightarrow> Inl e
                | Inr candi2 \<Rightarrow> Inr (1, candi2)))"

section \<open>Reference-face selection, filtering and the k-factor\<close>

text \<open>
  Modelled from the spec: the enum \<open>CollisionFace\<close> is declared in a header that is not
  part of the source file. The source indexes \<open>deps[4]\<close> by its values and scans them
  with \<open>for(i = CF_LEFT; i <= CF_TOP; ++i)\<close>, so \<open>CF_LEFT\<close> is the first and
  \<open>CF_TOP\<close> the last of the four; the two in between are taken in the order in which
  the specification (sections 4.3 and 4.4) and the source list the faces.
\<close>

datatype CollisionFace = CF_LEFT | CF_RIGHT | CF_BOTTOM | CF_TOP

definition CF_scan :: "CollisionFace list" where
  "CF_scan = [CF_LEFT, CF_RIGHT, CF_BOTTOM, CF_TOP]"

text \<open>The summand that one contact adds to \<open>deps[f]\<close>.\<close>

fun face_dist :: "AABBBox \<Rightarrow> CollisionFace \<Rightarrow> PyVector2 \<Rightarrow> real" where
  "face_dist bx CF_LEFT c = \<bar>fst c - left bx\<bar>"
| "face_dist bx CF_RIGHT c = \<bar>right bx - fst c\<bar>"
| "face_dist bx CF_BOTTOM c = \<bar>snd c - bottom bx\<bar>"
| "face_dist bx CF_TOP c = \<bar>top' bx - snd c\<bar>"

definition SAT_deps :: "AABBBox \<Rightarrow> PyVector2 list \<Rightarrow> CollisionFace \<Rightarrow> real" where
  "SAT_deps bx conts f = foldl (\<lambda>d c. d + face_dist bx f c) 0 conts"

text \<open>
  The scan for the minimum. \<open>face_id[k]\<close> is not initialised by the source: it is
  \<open>None\<close> until the first assignment.
\<close>

definition SAT_min_step ::
  "(CollisionFace \<Rightarrow> real) \<Rightarrow> CollisionFace option \<times> real \<Rightarrow> CollisionFace
     \<Rightarrow> CollisionFace option \<times> real" where
  "SAT_min_step deps st i = (if snd st > deps i then (Some i, deps i) else st)"

definition SAT_min_dep :: "AABBBox \<Rightarrow> PyVector2 list \<Rightarrow> CollisionFace option \<times> real" where
  "SAT_min_dep bx conts = foldl (SAT_min_step (SAT_deps bx conts)) (None, DBL_MAX) CF_scan"

text \<open>The branches of the face switch: the local normal, and the test that drops a contact.\<close>

fun face_normal :: "CollisionFace \<Rightarrow> PyVector2" where
  "face_normal CF_LEFT = (- 1, 0)"
| "face_normal CF_RIGHT = (1, 0)"
| "face_normal CF_BOTTOM = (0, - 1)"
| "face_normal CF_TOP = (0, 1)"

fun on_face :: "AABBBox \<Rightarrow> CollisionFace \<Rightarrow> PyVector2 \<Rightarrow> bool" where
  "on_face bx CF_LEFT c = PyMath_IsNearEqual (fst c) (left bx)"
| "on_face bx CF_RIGHT c = PyMath_IsNearEqual (fst c) (right bx)"
| "on_face bx CF_BOTTOM c = PyMath_IsNearEqual (snd c) (bottom bx)"
| "on_face bx CF_TOP c = PyMath_IsNearEqual (snd c) (top' bx)"

definition SAT_keep :: "AABBBox \<Rightarrow> CollisionFace \<Rightarrow> PyVector2 \<Rightarrow> Candidate \<Rightarrow> error + Candidate" where
  "SAT_keep bx f c candi = (if \<not> on_face bx f c then store_contact candi c else Inr candi)"

definition SAT_filter ::
  "AABBBox \<Rightarrow> CollisionFace \<Rightarrow> PyVector2 list \<Rightarrow> Candidate \<Rightarrow> error + Candidate" where
  "SAT_filter bx f conts candi =
     for_each (SAT_keep bx f) conts (candi\<lparr>normal := face_normal f\<rparr>)"

text \<open>The body of the last loop: the factor of the world-space contact \<open>c\<close>.\<close>

definition SAT_kFactor :: "PyBodyObject \<Rightarrow> PyBodyObject \<Rightarrow> PyVector2 \<Rightarrow> PyVector2 \<Rightarrow> real" where
  "SAT_kFactor self inc n c =
     (let refR = c_diff c (vecPosition self);
          incidR = c_diff c (vecPosition inc);
          tmp1 = PyVector2_Dot (PyVector2_fCross (PyVector2_Cross refR n) refR) n
                   / rInertia (shape self);
          tmp2 = PyVector2_Dot (PyVector2_fCross (PyVector2_Cross incidR n) incidR) n
                   / rInertia (shape inc)
      in 1 / fMass self + 1 / fMass inc + tmp1 + tmp2)"

definition SAT_world :: "PyBodyObject \<Rightarrow> PyBodyObject \<Rightarrow> Candidate \<Rightarrow> Candidate" where
  "SAT_world self inc candi =
     (let n = PyVector2_Rotate (normal candi) (fRotation self);
          cs = map (\<lambda>c. c_sum (PyVector2_Rotate c (fRotation self)) (vecPosition self))
                 (contacts candi)
      in candi\<lparr>normal := n, contacts := cs, kFactors := map (SAT_kFactor self inc n) cs\<rparr>)"

text \<open>
  \<open>_SATFindCollisionProperty\<close>. The result is the candidate with the two bodies written
  to \<open>ans_ref\<close> and \<open>ans_inc\<close>. The local arrays \<open>conts[0]\<close> and \<open>conts[1]\<close> have
  \<open>MAX_CONTACTS\<close> slots, so copying a longer candidate overflows them. A face that was
  never assigned reaches the switch with an indeterminate value; the model takes the
  \<open>default\<close> branch there.
\<close>

definition SAT_conts :: "PyBodyObject \<Rightarrow> PyBodyObject \<Rightarrow> Candidate \<Rightarrow> nat \<Rightarrow> PyVector2 list" where
  "SAT_conts selfBody incBody candi k =
     (if k = 0 then contacts candi
      else map (PyBodyObject_GetRelativePos incBody selfBody) (contacts candi))"

definition SAT_k ::
  "PyBodyObject \<Rightarrow> PyBodyObject \<Rightarrow> AABBBox \<Rightarrow> AABBBox \<Rightarrow> Candidate \<Rightarrow> nat" where
  "SAT_k selfBody incBody selfBox incBox candi =
     (if snd (SAT_min_dep selfBox (SAT_conts selfBody incBody candi 0))
           < snd (SAT_min_dep incBox (SAT_conts selfBody incBody candi 1))
      then 0 else 1)"

definition SATFindCollisionProperty ::
  "PyBodyObject \<Rightarrow> PyBodyObject \<Rightarrow> AABBBox \<Rightarrow> AABBBox \<Rightarrow> Candidate
     \<Rightarrow> error + (Candidate \<times> PyBodyObject \<times> PyBodyObject)" where
  "SATFindCollisionProperty selfBody incBody selfBox incBox candi =
     (if MAX_CONTACTS < contact_size candi then Inl Buffer_overflow
      else
        let k = SAT_k selfBody incBody selfBox incBox candi;
            conts = SAT_conts selfBody incBody candi k;
            bx = (if k = 0 then selfBox else incBox);
            self = (if k = 0 then selfBody else incBody);
            inc = (if k = 0 then incBody else selfBody);
            (face_id, min_dep) = SAT_min_dep bx conts
        in case face_id of
             None \<Rightarrow> Inl Face_unset
           | Some f \<Rightarrow>
               (case SAT_filter bx f conts (candi\<lparr>min_depth := min_dep, contacts := []\<rparr>) of
                  Inl e \<Rightarrow> Inl e
                | Inr candi1 \<Rightarrow> Inr (SAT_world self inc candi1, self, inc)))"

section \<open>The narrow-phase entry point\<close>

text \<open>
  Modelled from the spec: \<open>PyContact\<close> and \<open>PyContact_New\<close> are declared outside the
  source file. Section 6 of the specification: \<open>contact_new(ref_body, inc_body)\<close>
  "allocates an empty contact bound to a manifold"; the record holds the two bodies and
  the fields the source assigns; the field \<open>normal\<close> of a contact is \<open>cnormal\<close>
  here, apart from the \<open>normal\<close> of a candidate. \<open>ppAccMoment\<close> and
  \<open>ppSplitAccMoment\<close> point to one zeroed vector each, shared by the contacts of a
  call; the model stores the value the pointers lead to.
\<close>

record PyContact =
  ref_body :: PyBodyObject
  inc_body :: PyBodyObject
  pos :: PyVector2
  cnormal :: PyVector2
  ppAccMoment :: PyVector2
  ppSplitAccMoment :: PyVector2
  weight :: real
  depth :: real
  kFactor :: real

text \<open>The corners of \<open>src\<close>'s rectangle in the frame of \<open>tgt\<close> (\<open>p_in_self\<close>, \<open>p_in_inc\<close>).\<close>

definition corners_in :: "PyBodyObject \<Rightarrow> PyBodyObject \<Rightarrow> PyVector2 list" where
  "corners_in tgt src =
     [PyBodyObject_GetRelativePos tgt src (bottomleft (shape src)),
      PyBodyObject_GetRelativePos tgt src (bottomright (shape src)),
      PyBodyObject_GetRelativePos tgt src (topright (shape src)),
      PyBodyObject_GetRelativePos tgt src (topleft (shape src))]"

text \<open>The local box of a rectangle (\<open>box_self\<close>, \<open>box_inc\<close>).\<close>

definition local_box :: "PyRectShapeObject \<Rightarrow> AABBBox" where
  "local_box shp =
     AABB_Gen (fst (bottomleft shp)) (fst (topright shp))
              (snd (bottomleft shp)) (snd (topright shp))"

text \<open>One of the four \<open>if(AABB_IsIn(...))\<close> statements that add a corner of \<open>selfBody\<close>.\<close>

definition add_corner :: "AABBBox \<Rightarrow> PyVector2 \<times> PyVector2 \<Rightarrow> Candidate \<Rightarrow> error + Candidate" where
  "add_corner box_inc pc candi =
     (if AABB_IsIn (fst pc) box_inc 0 then store_contact candi (snd pc) else Inr candi)"

text \<open>
  The first half of \<open>_RectShapeCollision\<close>, up to the call of
  \<open>_SATFindCollisionProperty\<close>: the return value of \<open>_ClipTest\<close> and the candidate
  buffer. The candidate starts with a zero normal; its other fields are not initialised
  by the source and are written before they are read.
\<close>

definition candi0 :: Candidate where
  "candi0 = \<lparr>normal = (0, 0), contacts = [], kFactors = [], min_depth = 0\<rparr>"

definition RectShapeCollision_candidates ::
  "PyBodyObject \<Rightarrow> PyBodyObject \<Rightarrow> error + (int \<times> Candidate)" where
  "RectShapeCollision_candidates selfBody incidBody =
     (let self = shape selfBody; inc = shape incidBody;
          p_in_self = corners_in selfBody incidBody;
          p_in_inc = corners_in incidBody selfBody;
          box_self = local_box self; box_inc = local_box inc
      in case ClipTest box_self p_in_self candi0 of
           Inl e \<Rightarrow> Inl e
         | Inr (r, candi) \<Rightarrow>
             if r = 0 then Inr (0, candi)
             else (case for_each (add_corner box_inc)
                          (zip p_in_inc [bottomleft self, bottomright self, topright self, topleft self])
                          candi of
                     Inl e \<Rightarrow> Inl e
                   | Inr candi1 \<Rightarrow> Inr (1, candi1)))"

text \<open>The body of the emitting loop: the contact record made from slot \<open>i\<close>.\<close>

definition new_contact :: "PyBodyObject \<Rightarrow> PyBodyObject \<Rightarrow> Candidate \<Rightarrow> nat \<Rightarrow> PyContact" where
  "new_contact ans_ref ans_inc candi i =
     \<lparr>ref_body = ans_ref, inc_body = ans_inc, pos = contacts candi ! i, cnormal = normal candi,
      ppAccMoment = (0, 0), ppSplitAccMoment = (0, 0),
      weight = real (contact_size candi), depth = min_depth candi,
      kFactor = kFactors candi ! i\<rparr>"

text \<open>
  \<open>_RectShapeCollision\<close>: the return value and the caller's list after the call.
\<close>

definition RectShapeCollision ::
  "PyBodyObject \<Rightarrow> PyBodyObject \<Rightarrow> PyContact list \<Rightarrow> error + (int \<times> PyContact list)" where
  "RectShapeCollision selfBody incidBody contactList =
     (case RectShapeCollision_candidates selfBody incidBody of
        Inl e \<Rightarrow> Inl e
      | Inr (r, candi) \<Rightarrow>
          if r = 0 then Inr (0, contactList)
          else (case SATFindCollisionProperty selfBody incidBody
                       (local_box (shape selfBody)) (local_box (shape incidBody)) candi of
                  Inl e \<Rightarrow> Inl e
                | Inr (candi1, ans_ref, ans_inc) \<Rightarrow>
                    Inr (1, contactList @ map (new_contact ans_ref ans_inc candi1)
                                              [0..<contact_size candi1])))"

section \<open>Notions used to state the properties\<close>

text \<open>
  The face that \<open>_SATFindCollisionProperty\<close> switches on, \<open>face_id[k]\<close>, and the same
  face for a call of the entry point.
\<close>

definition SAT_face ::
  "PyBodyObject \<Rightarrow> PyBodyObject \<Rightarrow> AABBBox \<Rightarrow> AABBBox \<Rightarrow> Candidate \<Rightarrow> CollisionFace option" where
  "SAT_face selfBody incBody selfBox incBox candi =
     (let k = SAT_k selfBody incBody selfBox incBox candi
      in fst (SAT_min_dep (if k = 0 then selfBox else incBox) (SAT_conts selfBody incBody candi k)))"

definition RectShapeCollision_face :: "PyBodyObject \<Rightarrow> PyBodyObject \<Rightarrow> CollisionFace option" where
  "RectShapeCollision_face selfBody incidBody =
     (case RectShapeCollision_candidates selfBody incidBody of
        Inl e \<Rightarrow> None
      | Inr (r, candi) \<Rightarrow>
          if r = 0 then None
          else SAT_face selfBody incidBody (local_box (shape selfBody))
                 (local_box (shape incidBody)) candi)"

text \<open>
  The smallest of the four face-distance sums of section 4.3 of the specification,
  \<open>\<Sigma>|c.x - left|\<close>, \<open>\<Sigma>|right - c.x|\<close>, \<open>\<Sigma>|c.y - bottom|\<close> and \<open>\<Sigma>|top - c.y|\<close>,
  written from the specification's words.
\<close>

definition min_face_sum :: "AABBBox \<Rightarrow> PyVector2 list \<Rightarrow> real" where
  "min_face_sum bx cs =
     min (\<Sum>c\<leftarrow>cs. \<bar>fst c - left bx\<bar>)
       (min (\<Sum>c\<leftarrow>cs. \<bar>right bx - fst c\<bar>)
          (min (\<Sum>c\<leftarrow>cs. \<bar>snd c - bottom bx\<bar>) (\<Sum>c\<leftarrow>cs. \<bar>top' bx - snd c\<bar>)))"

text \<open>
  The quantity of the normal-orientation property of section 8: \<open>(p_inc - p_ref) \<cdot> n\<close>
  for an emitted contact.
\<close>

definition orientation :: "PyContact \<Rightarrow> real" where
  "orientation c =
     PyVector2_Dot (c_diff (vecPosition (inc_body c)) (vecPosition (ref_body c))) (cnormal c)"

text \<open>A rectangle whose local box has the body's origin strictly inside.\<close>

definition origin_inside :: "PyRectShapeObject \<Rightarrow> bool" where
  "origin_inside shp \<longleftrightarrow>
     fst (bottomleft shp) < 0 \<and> 0 < fst (topright shp) \<and>
     snd (bottomleft shp) < 0 \<and> 0 < snd (topright shp)"

text \<open>
  Bodies for the concrete scenarios: an unrotated body with mass \<open>m\<close>, position \<open>p\<close>
  and a \<open>w \<times> h\<close> rectangle built by \<open>PyRectShape_New\<close> with \<open>seta = 0\<close> and given
  the inertia \<open>i\<close>.
\<close>

definition rect_body :: "real \<Rightarrow> real \<Rightarrow> PyVector2 \<Rightarrow> real \<Rightarrow> real \<Rightarrow> PyBodyObject" where
  "rect_body m i p w h =
     \<lparr>fMass = m, vecPosition = p, fRotation = 0,
      shape = (PyRectShape_New w h 0)\<lparr>rInertia := i\<rparr>\<rparr>"

text \<open>
  Two unit squares, the second shifted by \<open>(1/2, 1/2)\<close>, with different masses and
  inertias; the candidate buffer the entry point hands to the face selection for them, and
  the contact records it emits.
\<close>

definition diag_A :: PyBodyObject where
  "diag_A = rect_body 1 3 (0, 0) 1 1"

definition diag_B :: PyBodyObject where
  "diag_B = rect_body 2 5 (1 / 2, 1 / 2) 1 1"

definition diag_candi :: Candidate where
  "diag_candi = candi0\<lparr>contacts := [(1 / 2, 0), (0, 1 / 2), (0, 0), (1 / 2, 1 / 2)]\<rparr>"

definition diag_contact :: "PyVector2 \<Rightarrow> real \<Rightarrow> PyContact" where
  "diag_contact p k =
     \<lparr>ref_body = diag_B, inc_body = diag_A, pos = p, cnormal = (- 1, 0),
      ppAccMoment = (0, 0), ppSplitAccMoment = (0, 0), weight = 2, depth = 1, kFactor = k\<rparr>"

text \<open>The candidate that the face selection returns for them.\<close>

definition diag_result :: Candidate where
  "diag_result =
     \<lparr>normal = (- 1, 0), contacts = [(1 / 2, 0), (1 / 2, 1 / 2)],
      kFactors = [31 / 20, 19 / 12], min_depth = 1\<rparr>"

text \<open>
  Two unit squares, the second shifted up by \<open>1/4\<close> and to the right by one unit less
  \<open>10\<^sup>-\<^sup>1\<^sup>0\<close>: they overlap in a strip that is thinner than the tolerance.
\<close>

definition graze_A :: PyBodyObject where
  "graze_A = rect_body 1 1 (0, 0) 1 1"

definition graze_B :: PyBodyObject where
  "graze_B = rect_body 1 1 (1 - 1 / 10 ^ 10, 1 / 4) 1 1"

text \<open>Scenario 4 of section 8: a unit square inside a \<open>10 \<times> 10\<close> square, same centre.\<close>

definition small_body :: PyBodyObject where
  "small_body = rect_body 1 1 (0, 0) 1 1"

definition big_body :: PyBodyObject where
  "big_body = rect_body 1 1 (0, 0) 10 10"

text \<open>
  A \<open>15 \<times> 2\<close> bar centred at \<open>(-5/2, 0)\<close> crossed by a \<open>4 \<times> 10\<close> bar centred at
  \<open>(2, 3)\<close>.
\<close>

definition cross_A :: PyBodyObject where
  "cross_A = rect_body 1 1 (- 5 / 2, 0) 15 2"

definition cross_B :: PyBodyObject where
  "cross_B = rect_body 1 1 (2, 3) 4 10"

section \<open>The candidate buffer stays within its sixteen slots\<close>

lemma for_each_bound:
  assumes step: "\<And>i s. sz s + d \<le> M \<Longrightarrow> \<exists>s'. body i s = Inr s' \<and> sz s' \<le> sz s + d"
  shows "sz s + d * length xs \<le> M \<Longrightarrow> \<exists>s'. for_each body xs s = Inr s' \<and> sz s' \<le> sz s + d * length xs"
proof (induction xs arbitrary: s)
  case Nil
  then show ?case by simp
next
  case (Cons x xs)
  from Cons.prems have "sz s + d \<le> M" by simp
  from step [OF this, of x] obtain s1 where s1: "body x s = Inr s1" "sz s1 \<le> sz s + d"
    by blast
  with Cons.prems have "sz s1 + d * length xs \<le> M" by simp
  from Cons.IH [OF this] obtain s2 where "for_each body xs s1 = Inr s2" "sz s2 \<le> sz s1 + d * length xs"
    by blast
  with s1 show ?case by auto
qed

lemma ClipTest_end_bound:
  "contact_size (snd st) < MAX_CONTACTS \<Longrightarrow>
     \<exists>st'. ClipTest_end points q j st = Inr st' \<and> contact_size (snd st') \<le> contact_size (snd st) + 1"
  by (simp add: ClipTest_end_def store_contact_def contact_size_def)

lemma ClipTest_edge_bound:
  assumes "contact_size (snd (snd st)) + 2 \<le> MAX_CONTACTS"
  shows "\<exists>st'. ClipTest_edge bx points i st = Inr st' \<and>
           contact_size (snd (snd st')) \<le> contact_size (snd (snd st)) + 2"
proof (cases "Collision_LiangBarskey bx (points ! i) (points ! ((i + 1) mod 4))")
  case None
  then show ?thesis by (simp add: ClipTest_edge_def)
next
  case (Some pp)
  obtain pf pt where pp: "pp = (pf, pt)" by (cases pp)
  from assms have "contact_size (snd (snd st)) < MAX_CONTACTS" by simp
  from ClipTest_end_bound [OF this, of points pf i]
  obtain st1 where st1: "ClipTest_end points pf i (snd st) = Inr st1"
    "contact_size (snd st1) \<le> contact_size (snd (snd st)) + 1" by blast
  with assms have "contact_size (snd st1) < MAX_CONTACTS" by simp
  from ClipTest_end_bound [OF this, of points pt "(i + 1) mod 4"]
  obtain st2 where st2: "ClipTest_end points pt ((i + 1) mod 4) st1 = Inr st2"
    "contact_size (snd st2) \<le> contact_size (snd st1) + 1" by blast
  from Some pp st1 st2 show ?thesis by (simp add: ClipTest_edge_def)
qed

lemma ClipTest_vertex_bound:
  "contact_size candi + 1 \<le> MAX_CONTACTS \<Longrightarrow>
     \<exists>c'. ClipTest_vertex points has_ip i candi = Inr c' \<and> contact_size c' \<le> contact_size candi + 1"
  by (simp add: ClipTest_vertex_def store_contact_def contact_size_def)

lemma ClipTest_bound:
  "\<exists>r c. ClipTest bx points candi = Inr (r, c) \<and> contact_size c \<le> 12"
proof -
  let ?s0 = "(1::int, replicate 4 False, candi\<lparr>contacts := []\<rparr>)"
  have "contact_size (snd (snd ?s0)) + 2 * length [0, 1, 2, 3::nat] \<le> MAX_CONTACTS"
    by (simp add: contact_size_def MAX_CONTACTS_def)
  from for_each_bound [where sz = "\<lambda>st. contact_size (snd (snd st))" and body = "ClipTest_edge bx points"
      and M = MAX_CONTACTS and d = 2, OF ClipTest_edge_bound this]
  obtain st1 where st1: "for_each (ClipTest_edge bx points) [0, 1, 2, 3] ?s0 = Inr st1"
    "contact_size (snd (snd st1)) \<le> 8" by (auto simp: contact_size_def)
  obtain apart has_ip c1 where s: "st1 = (apart, has_ip, c1)" by (cases st1)
  with st1 have c1: "contact_size c1 \<le> 8" by simp
  then have "contact_size c1 + 1 * length [0, 1, 2, 3::nat] \<le> MAX_CONTACTS"
    by (simp add: MAX_CONTACTS_def)
  from for_each_bound [where sz = contact_size and body = "ClipTest_vertex points has_ip"
      and M = MAX_CONTACTS and d = 1, OF ClipTest_vertex_bound this]
  obtain c2 where c2: "for_each (ClipTest_vertex points has_ip) [0, 1, 2, 3] c1 = Inr c2"
    "contact_size c2 \<le> contact_size c1 + 4" by auto
  show ?thesis
  proof (cases "apart \<noteq> 0")
    case True
    with st1 s c1 show ?thesis by (simp add: ClipTest_def)
  next
    case False
    with st1 s c1 c2 show ?thesis by (simp add: ClipTest_def)
  qed
qed

lemma add_corner_bound:
  "contact_size candi + 1 \<le> MAX_CONTACTS \<Longrightarrow>
     \<exists>c'. add_corner box_inc pc candi = Inr c' \<and> contact_size c' \<le> contact_size candi + 1"
  by (simp add: add_corner_def store_contact_def contact_size_def)

lemma candidates_bound:
  "\<exists>r c. RectShapeCollision_candidates selfBody incidBody = Inr (r, c) \<and>
          contact_size c \<le> MAX_CONTACTS"
proof -
  let ?self = "shape selfBody"
  let ?cs = "zip (corners_in incidBody selfBody)
               [bottomleft ?self, bottomright ?self, topright ?self, topleft ?self]"
  obtain r c where c: "ClipTest (local_box ?self) (corners_in selfBody incidBody) candi0 = Inr (r, c)"
    "contact_size c \<le> 12" using ClipTest_bound by blast
  have len: "length ?cs = 4" by (simp add: corners_in_def)
  with c have "contact_size c + 1 * length ?cs \<le> MAX_CONTACTS" by (simp add: MAX_CONTACTS_def)
  from for_each_bound [where sz = contact_size and body = "add_corner (local_box (shape incidBody))"
      and M = MAX_CONTACTS and d = 1, OF add_corner_bound this]
  obtain c1 where c1: "for_each (add_corner (local_box (shape incidBody))) ?cs c = Inr c1"
    "contact_size c1 \<le> contact_size c + 4" using len by auto
  show ?thesis
  proof (cases "r = 0")
    case True
    with c show ?thesis by (simp add: RectShapeCollision_candidates_def MAX_CONTACTS_def)
  next
    case False
    with c c1 show ?thesis by (simp add: RectShapeCollision_candidates_def MAX_CONTACTS_def)
  qed
qed

lemma SAT_keep_Inr:
  "SAT_keep bx f c candi = Inr c' \<Longrightarrow>
     c' = candi\<lparr>contacts := contacts candi @ filter (\<lambda>x. \<not> on_face bx f x) [c]\<rparr>"
  by (auto simp: SAT_keep_def store_contact_def split: if_splits)

lemma for_each_keep_Inr:
  "for_each (SAT_keep bx f) conts candi = Inr c' \<Longrightarrow>
     c' = candi\<lparr>contacts := contacts candi @ filter (\<lambda>x. \<not> on_face bx f x) conts\<rparr>"
proof (induction conts arbitrary: candi)
  case Nil
  then show ?case by simp
next
  case (Cons c conts)
  from Cons.prems obtain c1 where c1: "SAT_keep bx f c candi = Inr c1"
    "for_each (SAT_keep bx f) conts c1 = Inr c'" by (auto split: sum.splits)
  from Cons.IH [OF c1(2)] SAT_keep_Inr [OF c1(1)] show ?case by simp
qed

lemma SAT_keep_bound:
  "contact_size candi + 1 \<le> MAX_CONTACTS \<Longrightarrow>
     \<exists>c'. SAT_keep bx f c candi = Inr c' \<and> contact_size c' \<le> contact_size candi + 1"
  by (simp add: SAT_keep_def store_contact_def contact_size_def)

lemma SAT_filter_Inr:
  "SAT_filter bx f conts candi = Inr c' \<Longrightarrow>
     c' = candi\<lparr>normal := face_normal f,
               contacts := contacts candi @ filter (\<lambda>x. \<not> on_face bx f x) conts\<rparr>"
  by (auto simp: SAT_filter_def dest!: for_each_keep_Inr)

lemma SAT_filter_ok:
  assumes "contact_size candi + length conts \<le> MAX_CONTACTS"
  shows "\<exists>c'. SAT_filter bx f conts candi = Inr c'"
proof -
  from assms have "contact_size (candi\<lparr>normal := face_normal f\<rparr>) + 1 * length conts \<le> MAX_CONTACTS"
    by (simp add: contact_size_def)
  from for_each_bound [where sz = contact_size and body = "SAT_keep bx f"
      and M = MAX_CONTACTS and d = 1, OF SAT_keep_bound this]
  show ?thesis by (auto simp: SAT_filter_def)
qed

lemma SAT_conts_length: "length (SAT_conts selfBody incBody candi k) = contact_size candi"
  by (simp add: SAT_conts_def contact_size_def)

lemma SAT_Inr:
  assumes "SATFindCollisionProperty selfBody incBody selfBox incBox candi = Inr (c1, ans_ref, ans_inc)"
  defines "k \<equiv> SAT_k selfBody incBody selfBox incBox candi"
  defines "bx \<equiv> (if k = 0 then selfBox else incBox)"
  shows "\<exists>f. SAT_face selfBody incBody selfBox incBox candi = Some f \<and>
           ans_ref = (if k = 0 then selfBody else incBody) \<and>
           ans_inc = (if k = 0 then incBody else selfBody) \<and>
           contact_size candi \<le> MAX_CONTACTS \<and>
           c1 = SAT_world ans_ref ans_inc
                  (candi\<lparr>min_depth := snd (SAT_min_dep bx (SAT_conts selfBody incBody candi k)),
                         normal := face_normal f,
                         contacts := filter (\<lambda>x. \<not> on_face bx f x) (SAT_conts selfBody incBody candi k)\<rparr>)"
  using assms(1) unfolding SATFindCollisionProperty_def SAT_face_def k_def bx_def
  by (auto simp: Let_def split: if_splits prod.splits option.splits sum.splits dest!: SAT_filter_Inr)

lemma SAT_filter_eq:
  assumes "contact_size candi + length conts \<le> MAX_CONTACTS"
  shows "SAT_filter bx f conts candi =
           Inr (candi\<lparr>normal := face_normal f,
                      contacts := contacts candi @ filter (\<lambda>x. \<not> on_face bx f x) conts\<rparr>)"
  using SAT_filter_ok [OF assms, of bx f] SAT_filter_Inr [of bx f conts candi] by auto

lemma SAT_eq:
  assumes "contact_size candi \<le> MAX_CONTACTS"
  shows "SATFindCollisionProperty selfBody incBody selfBox incBox candi =
     (let k = SAT_k selfBody incBody selfBox incBox candi;
          conts = SAT_conts selfBody incBody candi k;
          bx = (if k = 0 then selfBox else incBox);
          self = (if k = 0 then selfBody else incBody);
          inc = (if k = 0 then incBody else selfBody)
      in case fst (SAT_min_dep bx conts) of
           None \<Rightarrow> Inl Face_unset
         | Some f \<Rightarrow>
             Inr (SAT_world self inc
                    (candi\<lparr>min_depth := snd (SAT_min_dep bx conts), normal := face_normal f,
                           contacts := filter (\<lambda>x. \<not> on_face bx f x) conts\<rparr>), self, inc))"
proof -
  have "SAT_filter bx f (SAT_conts selfBody incBody candi k) (candi\<lparr>min_depth := m, contacts := []\<rparr>)
          = Inr (candi\<lparr>min_depth := m, normal := face_normal f,
                  contacts := filter (\<lambda>x. \<not> on_face bx f x) (SAT_conts selfBody incBody candi k)\<rparr>)"
    for bx f k m
    using assms by (subst SAT_filter_eq) (simp_all add: SAT_conts_length contact_size_def)
  then show ?thesis using assms
    unfolding SATFindCollisionProperty_def
    by (simp add: Let_def split: prod.splits option.splits)
qed

lemma SAT_no_overflow:
  assumes "contact_size candi \<le> MAX_CONTACTS"
  shows "SATFindCollisionProperty selfBody incBody selfBox incBox candi \<noteq> Inl Buffer_overflow"
  by (simp add: SAT_eq [OF assms] Let_def split: option.splits)

lemma entry_no_overflow:
  "RectShapeCollision selfBody incidBody contactList \<noteq> Inl Buffer_overflow"
proof -
  obtain r c where c: "RectShapeCollision_candidates selfBody incidBody = Inr (r, c)"
    "contact_size c \<le> MAX_CONTACTS" using candidates_bound by blast
  from SAT_no_overflow [OF c(2)] c(1) show ?thesis
    by (auto simp: RectShapeCollision_def split: sum.splits)
qed

lemma SAT_world_sizes:
  "contact_size (SAT_world self inc candi) = contact_size candi"
  "length (kFactors (SAT_world self inc candi)) = contact_size candi"
  by (simp_all add: SAT_world_def contact_size_def Let_def)

lemma SAT_sizes:
  assumes "contact_size candi \<le> MAX_CONTACTS"
  shows "case SATFindCollisionProperty selfBody incBody selfBox incBox candi of
           Inl e \<Rightarrow> e = Face_unset
         | Inr (c1, ans_ref, ans_inc) \<Rightarrow>
             contact_size c1 \<le> contact_size candi \<and> length (kFactors c1) = contact_size c1"
proof -
  have "length (filter P (SAT_conts selfBody incBody candi k)) \<le> contact_size candi" for P k
    using length_filter_le [of P "SAT_conts selfBody incBody candi k"]
    by (simp add: SAT_conts_length)
  then show ?thesis
    by (simp add: SAT_eq [OF assms] Let_def SAT_world_sizes contact_size_def [of "_\<lparr>contacts := _\<rparr>"]
        split: option.splits)
qed

text \<open>
  Claim C8. The candidate buffer never holds more than its 16 slots. The clipping pass
  ends without a store past the buffer and leaves at most 12 points in it; the entry
  point, which then adds at most one corner in each of four stores, ends with at most
  \<open>MAX_CONTACTS\<close> points; \<open>_SATFindCollisionProperty\<close> on that buffer copies it into
  its two local arrays, refills the buffer with no more points than it held, and writes as
  many factors as contacts. No call of the entry point stores past the buffer.
\<close>

theorem contact_buffer_in_bounds:
  "(\<exists>r c. ClipTest bx points candi = Inr (r, c) \<and> contact_size c \<le> 12) \<and>
   (\<exists>r c. RectShapeCollision_candidates selfBody incidBody = Inr (r, c) \<and>
      contact_size c \<le> MAX_CONTACTS \<and>
      (case SATFindCollisionProperty selfBody incidBody (local_box (shape selfBody))
              (local_box (shape incidBody)) c of
         Inl e \<Rightarrow> e = Face_unset
       | Inr (c1, ans_ref, ans_inc) \<Rightarrow>
           contact_size c1 \<le> contact_size c \<and> length (kFactors c1) = contact_size c1)) \<and>
   RectShapeCollision selfBody incidBody contactList \<noteq> Inl Buffer_overflow"
proof -
  obtain r c where c: "RectShapeCollision_candidates selfBody incidBody = Inr (r, c)"
    "contact_size c \<le> MAX_CONTACTS" using candidates_bound by blast
  from c SAT_sizes [OF c(2)] have "\<exists>r c. RectShapeCollision_candidates selfBody incidBody = Inr (r, c) \<and>
      contact_size c \<le> MAX_CONTACTS \<and>
      (case SATFindCollisionProperty selfBody incidBody (local_box (shape selfBody))
              (local_box (shape incidBody)) c of
         Inl e \<Rightarrow> e = Face_unset
       | Inr (c1, ans_ref, ans_inc) \<Rightarrow>
           contact_size c1 \<le> contact_size c \<and> length (kFactors c1) = contact_size c1)"
    by blast
  with ClipTest_bound entry_no_overflow show ?thesis by blast
qed

section \<open>The AABB update\<close>

text \<open>
  Claim C10. For a body whose shape is not tagged \<open>ST_RECT\<close>, \<open>_RectShapeUpdateAABB\<close>
  changes nothing: the body, with its shape and the box of the shape, is as before.
\<close>

theorem UpdateAABB_other_shape_unchanged:
  "type (shape body) \<noteq> ST_RECT \<Longrightarrow> RectShapeUpdateAABB body = body"
  by (simp add: RectShapeUpdateAABB_def)

theorem UpdateAABB_other_shape_unchanged_witness:
  "type (shape ((rect_body 1 1 (0, 0) 1 1)\<lparr>shape := (PyRectShape_New 1 1 0)\<lparr>type := ST_OTHER\<rparr>\<rparr>)) \<noteq> ST_RECT \<and>
   RectShapeUpdateAABB ((rect_body 1 1 (0, 0) 1 1)\<lparr>shape := (PyRectShape_New 1 1 0)\<lparr>type := ST_OTHER\<rparr>\<rparr>)
     = (rect_body 1 1 (0, 0) 1 1)\<lparr>shape := (PyRectShape_New 1 1 0)\<lparr>type := ST_OTHER\<rparr>\<rparr>"
  using UpdateAABB_other_shape_unchanged
    [of "(rect_body 1 1 (0, 0) 1 1)\<lparr>shape := (PyRectShape_New 1 1 0)\<lparr>type := ST_OTHER\<rparr>\<rparr>"]
  by simp

text \<open>For a body tagged \<open>ST_RECT\<close> the box is rebuilt from the four world-space corners.\<close>

lemma DBL_MAX_large: "1000 < DBL_MAX"
  by (simp add: DBL_MAX_def)

lemma UpdateAABB_rect_example:
  "box (shape (RectShapeUpdateAABB (rect_body 1 1 (3, 4) 2 1)))
     = \<lparr>left = 2, right = 4, bottom = 7 / 2, top' = 9 / 2\<rparr>"
  using DBL_MAX_large
  by (simp add: RectShapeUpdateAABB_def rect_body_def PyRectShape_New_def RectShape_InitInternal_def
      RectShapeNew_def PyBodyObject_GetGlobalPos_def PyVector2_Rotate_def c_sum_def AABB_Clear_def
      AABB_ExpandTo_def Let_def)

section \<open>What the entry point returns\<close>

lemma ClipTest_result:
  "ClipTest bx points candi = Inr (r, c) \<Longrightarrow> r = 0 \<or> r = 1"
  by (auto simp: ClipTest_def split: sum.splits prod.splits if_splits)

lemma candidates_result:
  "RectShapeCollision_candidates selfBody incidBody = Inr (r, c) \<Longrightarrow> r = 0 \<or> r = 1"
  by (auto simp: RectShapeCollision_candidates_def Let_def split: sum.splits prod.splits if_splits)

lemma entry_Inr:
  assumes "RectShapeCollision selfBody incidBody contactList = Inr (r, contactList')"
  shows "(r = 0 \<and> contactList' = contactList) \<or>
         (r = 1 \<and> (\<exists>candi c1 ans_ref ans_inc.
            RectShapeCollision_candidates selfBody incidBody = Inr (1, candi) \<and>
            SATFindCollisionProperty selfBody incidBody (local_box (shape selfBody))
              (local_box (shape incidBody)) candi = Inr (c1, ans_ref, ans_inc) \<and>
            contactList' = contactList @ map (new_contact ans_ref ans_inc c1) [0..<contact_size c1]))"
proof -
  obtain r0 candi where c: "RectShapeCollision_candidates selfBody incidBody = Inr (r0, candi)"
    using candidates_bound by blast
  from candidates_result [OF c] show ?thesis
  proof
    assume "r0 = 0"
    with c assms show ?thesis by (simp add: RectShapeCollision_def)
  next
    assume "r0 = 1"
    with c assms show ?thesis
      by (auto simp: RectShapeCollision_def split: sum.splits)
  qed
qed

lemma SAT_Inr_fields:
  assumes "SATFindCollisionProperty selfBody incBody selfBox incBox candi = Inr (c1, ans_ref, ans_inc)"
  shows "\<exists>f. SAT_face selfBody incBody selfBox incBox candi = Some f \<and>
           normal c1 = PyVector2_Rotate (face_normal f) (fRotation ans_ref) \<and>
           kFactors c1 = map (SAT_kFactor ans_ref ans_inc (normal c1)) (contacts c1) \<and>
           ((ans_ref = selfBody \<and> ans_inc = incBody) \<or> (ans_ref = incBody \<and> ans_inc = selfBody))"
proof -
  let ?k = "SAT_k selfBody incBody selfBox incBox candi"
  let ?bx = "if ?k = 0 then selfBox else incBox"
  from SAT_Inr [OF assms] obtain f where f: "SAT_face selfBody incBody selfBox incBox candi = Some f"
    and r1: "ans_ref = (if ?k = 0 then selfBody else incBody)"
    and r2: "ans_inc = (if ?k = 0 then incBody else selfBody)"
    and c1: "c1 = SAT_world ans_ref ans_inc
                  (candi\<lparr>min_depth := snd (SAT_min_dep ?bx (SAT_conts selfBody incBody candi ?k)),
                         normal := face_normal f,
                         contacts := filter (\<lambda>x. \<not> on_face ?bx f x) (SAT_conts selfBody incBody candi ?k)\<rparr>)"
    by blast
  from r1 r2 have r: "(ans_ref = selfBody \<and> ans_inc = incBody) \<or> (ans_ref = incBody \<and> ans_inc = selfBody)"
    by (cases "?k = 0") simp_all
  from c1 have "normal c1 = PyVector2_Rotate (face_normal f) (fRotation ans_ref)"
    "kFactors c1 = map (SAT_kFactor ans_ref ans_inc (normal c1)) (contacts c1)"
    by (simp_all add: SAT_world_def Let_def)
  with f r show ?thesis by blast
qed

lemma SAT_Inr_contacts:
  assumes "SATFindCollisionProperty selfBody incBody selfBox incBox candi = Inr (c1, ans_ref, ans_inc)"
  shows "\<exists>f. SAT_face selfBody incBody selfBox incBox candi = Some f \<and>
           contacts c1 =
             map (PyBodyObject_GetGlobalPos ans_ref)
               (filter (\<lambda>x. \<not> on_face (if SAT_k selfBody incBody selfBox incBox candi = 0
                                        then selfBox else incBox) f x)
                  (SAT_conts selfBody incBody candi (SAT_k selfBody incBody selfBox incBox candi)))"
proof -
  let ?k = "SAT_k selfBody incBody selfBox incBox candi"
  let ?bx = "if ?k = 0 then selfBox else incBox"
  from SAT_Inr [OF assms] obtain f where f: "SAT_face selfBody incBody selfBox incBox candi = Some f"
    and c1: "c1 = SAT_world ans_ref ans_inc
                  (candi\<lparr>min_depth := snd (SAT_min_dep ?bx (SAT_conts selfBody incBody candi ?k)),
                         normal := face_normal f,
                         contacts := filter (\<lambda>x. \<not> on_face ?bx f x) (SAT_conts selfBody incBody candi ?k)\<rparr>)"
    by blast
  from c1 have "contacts c1 = map (PyBodyObject_GetGlobalPos ans_ref)
      (filter (\<lambda>x. \<not> on_face ?bx f x) (SAT_conts selfBody incBody candi ?k))"
    by (simp add: SAT_world_def Let_def PyBodyObject_GetGlobalPos_def)
  with f show ?thesis by blast
qed

lemma SAT_Inr_bodies:
  assumes "SATFindCollisionProperty selfBody incBody selfBox incBox candi = Inr (c1, ans_ref, ans_inc)"
  shows "ans_ref = (if SAT_k selfBody incBody selfBox incBox candi = 0 then selfBody else incBody)"
    and "ans_inc = (if SAT_k selfBody incBody selfBox incBox candi = 0 then incBody else selfBody)"
  using SAT_Inr [OF assms] by blast+

text \<open>What an emitted contact record holds.\<close>

lemma emitted_contact:
  assumes "RectShapeCollision selfBody incidBody contactList = Inr (r, contactList')"
    and "c \<in> set (drop (length contactList) contactList')"
  shows "r = 1 \<and>
         (\<exists>f. RectShapeCollision_face selfBody incidBody = Some f \<and>
              cnormal c = PyVector2_Rotate (face_normal f) (fRotation (ref_body c))) \<and>
         kFactor c = SAT_kFactor (ref_body c) (inc_body c) (cnormal c) (pos c) \<and>
         ((ref_body c = selfBody \<and> inc_body c = incidBody) \<or>
          (ref_body c = incidBody \<and> inc_body c = selfBody))"
proof -
  from entry_Inr [OF assms(1)] assms(2)
  obtain candi c1 ans_ref ans_inc where r: "r = 1"
    and cand: "RectShapeCollision_candidates selfBody incidBody = Inr (1, candi)"
    and sat: "SATFindCollisionProperty selfBody incidBody (local_box (shape selfBody))
              (local_box (shape incidBody)) candi = Inr (c1, ans_ref, ans_inc)"
    and l: "contactList' = contactList @ map (new_contact ans_ref ans_inc c1) [0..<contact_size c1]"
    by auto
  from l assms(2) obtain i where i: "i < contact_size c1" "c = new_contact ans_ref ans_inc c1 i"
    by auto
  from SAT_Inr_fields [OF sat] obtain f where f:
    "SAT_face selfBody incidBody (local_box (shape selfBody)) (local_box (shape incidBody)) candi = Some f"
    and n: "normal c1 = PyVector2_Rotate (face_normal f) (fRotation ans_ref)"
    and k: "kFactors c1 = map (SAT_kFactor ans_ref ans_inc (normal c1)) (contacts c1)"
    and refinc: "(ans_ref = selfBody \<and> ans_inc = incidBody) \<or> (ans_ref = incidBody \<and> ans_inc = selfBody)"
    by blast
  from cand f have face: "RectShapeCollision_face selfBody incidBody = Some f"
    by (simp add: RectShapeCollision_face_def)
  from i n have "cnormal c = PyVector2_Rotate (face_normal f) (fRotation (ref_body c))"
    by (simp add: new_contact_def)
  moreover from i k have "kFactor c = SAT_kFactor (ref_body c) (inc_body c) (cnormal c) (pos c)"
    by (simp add: new_contact_def contact_size_def)
  moreover from i refinc have "(ref_body c = selfBody \<and> inc_body c = incidBody) \<or>
          (ref_body c = incidBody \<and> inc_body c = selfBody)"
    by (auto simp: new_contact_def)
  ultimately show ?thesis using r face by blast
qed

lemma rotate_dot_aux:
  "(x * c - y * s) * (u * c - v * s) + (x * s + y * c) * (u * s + v * c)
     = (x * u + y * v) * (c * c + s * s)" for x :: real
  by (simp add: algebra_simps)

lemma Rotate_Dot: "PyVector2_Dot (PyVector2_Rotate a t) (PyVector2_Rotate b t) = PyVector2_Dot a b"
  unfolding PyVector2_Dot_def PyVector2_Rotate_def fst_conv snd_conv rotate_dot_aux
  by simp

lemma face_normal_unit: "PyVector2_Dot (face_normal f) (face_normal f) = 1"
  by (cases f) (simp_all add: PyVector2_Dot_def)

lemma Rotate_face_normal_length:
  "sqrt ((fst (PyVector2_Rotate (face_normal f) t))\<^sup>2 + (snd (PyVector2_Rotate (face_normal f) t))\<^sup>2) = 1"
proof -
  have "(fst (PyVector2_Rotate (face_normal f) t))\<^sup>2 + (snd (PyVector2_Rotate (face_normal f) t))\<^sup>2
          = PyVector2_Dot (PyVector2_Rotate (face_normal f) t) (PyVector2_Rotate (face_normal f) t)"
    by (simp add: PyVector2_Dot_def power2_eq_square)
  then show ?thesis by (simp add: Rotate_Dot face_normal_unit)
qed

section \<open>The concrete scenarios, evaluated\<close>

lemma Rotate_0: "PyVector2_Rotate v 0 = v"
  by (simp add: PyVector2_Rotate_def)

lemmas body_defs = rect_body_def PyRectShape_New_def RectShape_InitInternal_def RectShapeNew_def
  Rotate_0

lemmas vec_defs = c_sum_def c_diff_def PyVector2_Equal_def PyMath_IsNearEqual_def
  NEAR_EPSILON_def PyVector2_Dot_def PyVector2_Cross_def PyVector2_fCross_def

lemmas geo_defs = PyBodyObject_GetRelativePos_def PyBodyObject_GetGlobalPos_def local_box_def
  AABB_Gen_def corners_in_def AABB_IsIn_def

lemmas clip_defs = Collision_LiangBarskey_def clip_boundary_def ClipTest_def
  ClipTest_edge_def ClipTest_end_def ClipTest_vertex_def store_contact_def contact_size_def
  MAX_CONTACTS_def candi0_def add_corner_def RectShapeCollision_candidates_def

lemmas sat_defs = SATFindCollisionProperty_def SAT_k_def SAT_conts_def SAT_min_dep_def
  SAT_min_step_def SAT_deps_def CF_scan_def SAT_filter_def SAT_keep_def SAT_world_def
  SAT_kFactor_def DBL_MAX_def new_contact_def RectShapeCollision_def

lemmas run_defs = body_defs vec_defs geo_defs clip_defs sat_defs Let_def

lemma diag_collision:
  "RectShapeCollision diag_A diag_B []
     = Inr (1, [diag_contact (1 / 2, 0) (31 / 20), diag_contact (1 / 2, 1 / 2) (19 / 12)])"
  by (simp add: diag_A_def diag_B_def diag_contact_def run_defs)

lemma diag_candidates: "RectShapeCollision_candidates diag_A diag_B = Inr (1, diag_candi)"
  by (simp add: diag_A_def diag_B_def diag_candi_def run_defs)

lemma diag_face: "RectShapeCollision_face diag_A diag_B = Some CF_LEFT"
  by (simp add: diag_A_def diag_B_def RectShapeCollision_face_def SAT_face_def run_defs)

lemma diag_emitted:
  "diag_contact (1 / 2, 0) (31 / 20)
     \<in> set (drop (length ([] :: PyContact list))
               [diag_contact (1 / 2, 0) (31 / 20), diag_contact (1 / 2, 1 / 2) (19 / 12)])"
  by simp

lemma small_big_collision: "RectShapeCollision small_body big_body [] = Inr (0, [])"
  by (simp add: small_body_def big_body_def run_defs)

section \<open>The k-factor\<close>

text \<open>
  Where an emitted contact lies: its position is the world-space image, under the
  transform of its reference body, of a candidate in that body's local frame that is not
  on the chosen face.
\<close>

lemma emitted_contact_position:
  assumes "RectShapeCollision selfBody incidBody contactList = Inr (r, contactList')"
    and "c \<in> set (drop (length contactList) contactList')"
  shows "\<exists>candi q k bx f.
            RectShapeCollision_candidates selfBody incidBody = Inr (1, candi) \<and>
            k = SAT_k selfBody incidBody (local_box (shape selfBody))
                  (local_box (shape incidBody)) candi \<and>
            bx = (if k = 0 then local_box (shape selfBody) else local_box (shape incidBody)) \<and>
            ref_body c = (if k = 0 then selfBody else incidBody) \<and>
            inc_body c = (if k = 0 then incidBody else selfBody) \<and>
            RectShapeCollision_face selfBody incidBody = Some f \<and>
            q \<in> set (if k = 0 then contacts candi
                      else map (PyBodyObject_GetRelativePos incidBody selfBody) (contacts candi)) \<and>
            (case f of
               CF_LEFT \<Rightarrow> \<not> PyMath_IsNearEqual (fst q) (left bx)
             | CF_RIGHT \<Rightarrow> \<not> PyMath_IsNearEqual (fst q) (right bx)
             | CF_BOTTOM \<Rightarrow> \<not> PyMath_IsNearEqual (snd q) (bottom bx)
             | CF_TOP \<Rightarrow> \<not> PyMath_IsNearEqual (snd q) (top' bx)) \<and>
            pos c = PyBodyObject_GetGlobalPos (ref_body c) q \<and>
            cnormal c = PyVector2_Rotate (face_normal f) (fRotation (ref_body c))"
proof -
  let ?sb = "local_box (shape selfBody)" and ?ib = "local_box (shape incidBody)"
  from entry_Inr [OF assms(1)] assms(2)
  obtain candi c1 ans_ref ans_inc
    where cand: "RectShapeCollision_candidates selfBody incidBody = Inr (1, candi)"
    and sat: "SATFindCollisionProperty selfBody incidBody ?sb ?ib candi = Inr (c1, ans_ref, ans_inc)"
    and l: "contactList' = contactList @ map (new_contact ans_ref ans_inc c1) [0..<contact_size c1]"
    by auto
  let ?k = "SAT_k selfBody incidBody ?sb ?ib candi"
  let ?bx = "if ?k = 0 then ?sb else ?ib"
  let ?conts = "if ?k = 0 then contacts candi
                else map (PyBodyObject_GetRelativePos incidBody selfBody) (contacts candi)"
  from l assms(2) obtain i where i: "i < contact_size c1" "c = new_contact ans_ref ans_inc c1 i"
    by auto
  have conts: "SAT_conts selfBody incidBody candi ?k = ?conts" by (simp add: SAT_conts_def)
  from SAT_Inr_contacts [OF sat] obtain f
    where f: "SAT_face selfBody incidBody ?sb ?ib candi = Some f"
      and cs: "contacts c1 = map (PyBodyObject_GetGlobalPos ans_ref)
                 (filter (\<lambda>x. \<not> on_face ?bx f x) ?conts)"
    unfolding conts by blast
  from SAT_Inr_fields [OF sat] f
  have n: "normal c1 = PyVector2_Rotate (face_normal f) (fRotation ans_ref)" by auto
  from cand f have face: "RectShapeCollision_face selfBody incidBody = Some f"
    by (simp add: RectShapeCollision_face_def)
  from i(1) have "contacts c1 ! i \<in> set (contacts c1)" by (simp add: contact_size_def)
  with cs obtain q where q: "q \<in> set ?conts" "\<not> on_face ?bx f q"
    "contacts c1 ! i = PyBodyObject_GetGlobalPos ans_ref q"
    by auto
  from q(2) have off: "case f of
               CF_LEFT \<Rightarrow> \<not> PyMath_IsNearEqual (fst q) (left ?bx)
             | CF_RIGHT \<Rightarrow> \<not> PyMath_IsNearEqual (fst q) (right ?bx)
             | CF_BOTTOM \<Rightarrow> \<not> PyMath_IsNearEqual (snd q) (bottom ?bx)
             | CF_TOP \<Rightarrow> \<not> PyMath_IsNearEqual (snd q) (top' ?bx)"
    by (cases f) simp_all
  from i(2) q(3) have p: "pos c = PyBodyObject_GetGlobalPos (ref_body c) q"
    by (simp add: new_contact_def)
  from i(2) n have cn: "cnormal c = PyVector2_Rotate (face_normal f) (fRotation (ref_body c))"
    by (simp add: new_contact_def)
  from i(2) SAT_Inr_bodies [OF sat]
  have b: "ref_body c = (if ?k = 0 then selfBody else incidBody)"
    "inc_body c = (if ?k = 0 then incidBody else selfBody)"
    by (simp_all add: new_contact_def)
  from cand b face q(1) off p cn show ?thesis by blast
qed

text \<open>
  Claim C6. Each contact record the entry point appends is a surviving contact: its
  position is the world-space image, under the reference body's transform, of a candidate
  in the reference body's frame that the filter kept, its reference and incident body are
  the bodies chosen by the face selection, and its normal is the chosen face's axis
  rotated by the reference body's angle. Its stored k-factor is
  \<open>1/m_ref + 1/m_inc + ((r_ref \<times> n) \<times> r_ref) \<cdot> n / I_ref + ((r_inc \<times> n) \<times> r_inc) \<cdot> n / I_inc\<close>,
  where \<open>r_ref\<close> and \<open>r_inc\<close> are that world position minus the positions of the
  reference and incident body, \<open>n\<close> is the normal, \<open>m\<close> the masses and \<open>I\<close> the
  inertias of the shapes. (A zero mass or inertia makes the C division infinite or NaN;
  HOL's division by zero is \<open>0\<close> on both sides of the equation.)
\<close>

theorem emitted_kFactor_formula:
  assumes "RectShapeCollision selfBody incidBody contactList = Inr (r, contactList')"
    and "c \<in> set (drop (length contactList) contactList')"
  shows "(\<exists>candi q k bx f.
            RectShapeCollision_candidates selfBody incidBody = Inr (1, candi) \<and>
            k = SAT_k selfBody incidBody (local_box (shape selfBody))
                  (local_box (shape incidBody)) candi \<and>
            bx = (if k = 0 then local_box (shape selfBody) else local_box (shape incidBody)) \<and>
            ref_body c = (if k = 0 then selfBody else incidBody) \<and>
            inc_body c = (if k = 0 then incidBody else selfBody) \<and>
            RectShapeCollision_face selfBody incidBody = Some f \<and>
            q \<in> set (if k = 0 then contacts candi
                      else map (PyBodyObject_GetRelativePos incidBody selfBody) (contacts candi)) \<and>
            (case f of
               CF_LEFT \<Rightarrow> \<not> PyMath_IsNearEqual (fst q) (left bx)
             | CF_RIGHT \<Rightarrow> \<not> PyMath_IsNearEqual (fst q) (right bx)
             | CF_BOTTOM \<Rightarrow> \<not> PyMath_IsNearEqual (snd q) (bottom bx)
             | CF_TOP \<Rightarrow> \<not> PyMath_IsNearEqual (snd q) (top' bx)) \<and>
            pos c = PyBodyObject_GetGlobalPos (ref_body c) q \<and>
            cnormal c = PyVector2_Rotate
                          (case f of CF_LEFT \<Rightarrow> (- 1, 0) | CF_RIGHT \<Rightarrow> (1, 0)
                                   | CF_BOTTOM \<Rightarrow> (0, - 1) | CF_TOP \<Rightarrow> (0, 1))
                          (fRotation (ref_body c))) \<and>
         kFactor c =
           1 / fMass (ref_body c) + 1 / fMass (inc_body c)
           + PyVector2_Dot
               (PyVector2_fCross
                  (PyVector2_Cross (c_diff (pos c) (vecPosition (ref_body c))) (cnormal c))
                  (c_diff (pos c) (vecPosition (ref_body c))))
               (cnormal c)
             / rInertia (shape (ref_body c))
           + PyVector2_Dot
               (PyVector2_fCross
                  (PyVector2_Cross (c_diff (pos c) (vecPosition (inc_body c))) (cnormal c))
                  (c_diff (pos c) (vecPosition (inc_body c))))
               (cnormal c)
             / rInertia (shape (inc_body c))"
proof -
  have fn: "face_normal f = (case f of CF_LEFT \<Rightarrow> (- 1, 0) | CF_RIGHT \<Rightarrow> (1, 0)
                                  | CF_BOTTOM \<Rightarrow> (0, - 1) | CF_TOP \<Rightarrow> (0, 1))" for f
    by (cases f) simp_all
  from emitted_contact_position [OF assms]
  have "\<exists>candi q k bx f.
            RectShapeCollision_candidates selfBody incidBody = Inr (1, candi) \<and>
            k = SAT_k selfBody incidBody (local_box (shape selfBody))
                  (local_box (shape incidBody)) candi \<and>
            bx = (if k = 0 then local_box (shape selfBody) else local_box (shape incidBody)) \<and>
            ref_body c = (if k = 0 then selfBody else incidBody) \<and>
            inc_body c = (if k = 0 then incidBody else selfBody) \<and>
            RectShapeCollision_face selfBody incidBody = Some f \<and>
            q \<in> set (if k = 0 then contacts candi
                      else map (PyBodyObject_GetRelativePos incidBody selfBody) (contacts candi)) \<and>
            (case f of
               CF_LEFT \<Rightarrow> \<not> PyMath_IsNearEqual (fst q) (left bx)
             | CF_RIGHT \<Rightarrow> \<not> PyMath_IsNearEqual (fst q) (right bx)
             | CF_BOTTOM \<Rightarrow> \<not> PyMath_IsNearEqual (snd q) (bottom bx)
             | CF_TOP \<Rightarrow> \<not> PyMath_IsNearEqual (snd q) (top' bx)) \<and>
            pos c = PyBodyObject_GetGlobalPos (ref_body c) q \<and>
            cnormal c = PyVector2_Rotate
                          (case f of CF_LEFT \<Rightarrow> (- 1, 0) | CF_RIGHT \<Rightarrow> (1, 0)
                                   | CF_BOTTOM \<Rightarrow> (0, - 1) | CF_TOP \<Rightarrow> (0, 1))
                          (fRotation (ref_body c))"
    unfolding fn .
  moreover from emitted_contact [OF assms]
  have "kFactor c = SAT_kFactor (ref_body c) (inc_body c) (cnormal c) (pos c)" by blast
  then have "kFactor c =
           1 / fMass (ref_body c) + 1 / fMass (inc_body c)
           + PyVector2_Dot
               (PyVector2_fCross
                  (PyVector2_Cross (c_diff (pos c) (vecPosition (ref_body c))) (cnormal c))
                  (c_diff (pos c) (vecPosition (ref_body c))))
               (cnormal c)
             / rInertia (shape (ref_body c))
           + PyVector2_Dot
               (PyVector2_fCross
                  (PyVector2_Cross (c_diff (pos c) (vecPosition (inc_body c))) (cnormal c))
                  (c_diff (pos c) (vecPosition (inc_body c))))
               (cnormal c)
             / rInertia (shape (inc_body c))"
    by (simp add: SAT_kFactor_def Let_def)
  ultimately show ?thesis by blast
qed

theorem emitted_kFactor_formula_witness:
  "RectShapeCollision diag_A diag_B []
     = Inr (1, [diag_contact (1 / 2, 0) (31 / 20), diag_contact (1 / 2, 1 / 2) (19 / 12)]) \<and>
   diag_contact (1 / 2, 0) (31 / 20)
     \<in> set (drop (length ([] :: PyContact list))
               [diag_contact (1 / 2, 0) (31 / 20), diag_contact (1 / 2, 1 / 2) (19 / 12)]) \<and>
   (0, - 1 / 2) \<in> set (map (PyBodyObject_GetRelativePos diag_B diag_A) (contacts diag_candi)) \<and>
   pos (diag_contact (1 / 2, 0) (31 / 20))
     = PyBodyObject_GetGlobalPos (ref_body (diag_contact (1 / 2, 0) (31 / 20))) (0, - 1 / 2) \<and>
   kFactor (diag_contact (1 / 2, 0) (31 / 20)) = 1 / 2 + 1 / 1 + (1 / 4) / 5 + 0 / 3"
  using emitted_kFactor_formula [OF diag_collision diag_emitted] diag_collision diag_emitted
  by (simp add: diag_contact_def diag_candi_def diag_A_def diag_B_def body_defs vec_defs geo_defs
      candi0_def)

section \<open>The emitted normal\<close>

text \<open>
  Claim C7. For each contact record the entry point appends, the normal is the local axis
  vector of the chosen reference face, \<open>(-1, 0)\<close>, \<open>(1, 0)\<close>, \<open>(0, -1)\<close> or
  \<open>(0, 1)\<close> for left, right, bottom or top, rotated by the rotation angle of the
  contact's reference body; so its length is 1.
\<close>

theorem emitted_normal_rotated_axis:
  assumes "RectShapeCollision selfBody incidBody contactList = Inr (r, contactList')"
    and "c \<in> set (drop (length contactList) contactList')"
  shows "\<exists>f. RectShapeCollision_face selfBody incidBody = Some f \<and>
           cnormal c = PyVector2_Rotate
                         (case f of CF_LEFT \<Rightarrow> (- 1, 0) | CF_RIGHT \<Rightarrow> (1, 0)
                                  | CF_BOTTOM \<Rightarrow> (0, - 1) | CF_TOP \<Rightarrow> (0, 1))
                         (fRotation (ref_body c)) \<and>
           sqrt ((fst (cnormal c))\<^sup>2 + (snd (cnormal c))\<^sup>2) = 1"
proof -
  from emitted_contact [OF assms] obtain f
    where f: "RectShapeCollision_face selfBody incidBody = Some f"
      and n: "cnormal c = PyVector2_Rotate (face_normal f) (fRotation (ref_body c))"
    by blast
  have "face_normal f = (case f of CF_LEFT \<Rightarrow> (- 1, 0) | CF_RIGHT \<Rightarrow> (1, 0)
                                  | CF_BOTTOM \<Rightarrow> (0, - 1) | CF_TOP \<Rightarrow> (0, 1))"
    by (cases f) simp_all
  with f n Rotate_face_normal_length [of f "fRotation (ref_body c)"] show ?thesis by auto
qed

theorem emitted_normal_rotated_axis_witness:
  "RectShapeCollision diag_A diag_B []
     = Inr (1, [diag_contact (1 / 2, 0) (31 / 20), diag_contact (1 / 2, 1 / 2) (19 / 12)]) \<and>
   diag_contact (1 / 2, 0) (31 / 20)
     \<in> set (drop (length ([] :: PyContact list))
               [diag_contact (1 / 2, 0) (31 / 20), diag_contact (1 / 2, 1 / 2) (19 / 12)]) \<and>
   RectShapeCollision_face diag_A diag_B = Some CF_LEFT \<and>
   cnormal (diag_contact (1 / 2, 0) (31 / 20))
     = PyVector2_Rotate (- 1, 0) (fRotation (ref_body (diag_contact (1 / 2, 0) (31 / 20)))) \<and>
   sqrt ((fst (cnormal (diag_contact (1 / 2, 0) (31 / 20))))\<^sup>2
         + (snd (cnormal (diag_contact (1 / 2, 0) (31 / 20))))\<^sup>2) = 1"
  using emitted_normal_rotated_axis [OF diag_collision diag_emitted]
    diag_collision diag_emitted diag_face
  by auto

section \<open>The return value and the appended contacts\<close>

text \<open>
  Claim C1, as amended. The entry point returns 0 or 1 and only appends to the caller's
  list. If at least one contact record was appended during the call, it returned 1; a
  return of 0 leaves the list as it was. The converse is not promised: a return of 1 may
  come with no record appended.
\<close>

theorem appended_contact_implies_true:
  assumes "RectShapeCollision selfBody incidBody contactList = Inr (r, contactList')"
  shows "(r = 0 \<or> r = 1) \<and> take (length contactList) contactList' = contactList \<and>
         (length contactList < length contactList' \<longrightarrow> r = 1) \<and>
         (r = 0 \<longrightarrow> contactList' = contactList)"
  using entry_Inr [OF assms] by auto

theorem appended_contact_implies_true_witness:
  "RectShapeCollision diag_A diag_B []
     = Inr (1, [diag_contact (1 / 2, 0) (31 / 20), diag_contact (1 / 2, 1 / 2) (19 / 12)]) \<and>
   length ([] :: PyContact list)
     < length [diag_contact (1 / 2, 0) (31 / 20), diag_contact (1 / 2, 1 / 2) (19 / 12)] \<and>
   RectShapeCollision small_body big_body [] = Inr (0, [])"
  using appended_contact_implies_true [OF diag_collision]
    appended_contact_implies_true [OF small_big_collision] diag_collision small_big_collision
  by simp

text \<open>
  Claim C1 as stated fails: for the two squares that overlap in a strip thinner than the
  tolerance, every candidate lies on the chosen face and is filtered out; the call returns
  1 and appends nothing.
\<close>

theorem true_without_contact_counterexample:
  "RectShapeCollision graze_A graze_B [] = Inr (1, [])"
  by (simp add: graze_A_def graze_B_def run_defs)

section \<open>The choice of the reference body\<close>

lemma foldl_add_sum_list:
  "foldl (\<lambda>d c. d + g c) a cs = a + (\<Sum>c\<leftarrow>cs. g c)" for a :: real
  by (induction cs arbitrary: a) simp_all

lemma SAT_deps_sum: "SAT_deps bx cs f = (\<Sum>c\<leftarrow>cs. face_dist bx f c)"
  by (simp add: SAT_deps_def foldl_add_sum_list)

lemma SAT_min_dep_snd: "snd (SAT_min_dep bx cs) = min DBL_MAX (min_face_sum bx cs)"
  by (simp add: SAT_min_dep_def CF_scan_def SAT_min_step_def SAT_deps_sum min_face_sum_def min_def)

lemma SAT_min_dep_fst: "fst (SAT_min_dep bx cs) = Some f \<Longrightarrow> min_face_sum bx cs < DBL_MAX"
  by (simp add: SAT_min_dep_def CF_scan_def SAT_min_step_def SAT_deps_sum min_face_sum_def min_def
      split: if_splits)

text \<open>
  Claim C2, as amended. In reference-face selection, \<open>selfBody\<close> (body A) becomes the
  reference body exactly when its minimum face-distance sum is strictly smaller than that
  of \<open>incBody\<close> (body B); otherwise, also when the two minimum sums are equal, body B
  is the reference body and body A the incident body.
\<close>

theorem reference_body_choice:
  assumes "SATFindCollisionProperty selfBody incBody selfBox incBox candi = Inr (c1, ans_ref, ans_inc)"
  shows "(ans_ref, ans_inc) =
           (if min_face_sum selfBox (contacts candi)
                 < min_face_sum incBox
                     (map (PyBodyObject_GetRelativePos incBody selfBody) (contacts candi))
            then (selfBody, incBody) else (incBody, selfBody))"
proof -
  let ?k = "SAT_k selfBody incBody selfBox incBox candi"
  let ?m0 = "min_face_sum selfBox (contacts candi)"
  let ?m1 = "min_face_sum incBox
               (map (PyBodyObject_GetRelativePos incBody selfBody) (contacts candi))"
  from SAT_Inr [OF assms] obtain f where
    f: "SAT_face selfBody incBody selfBox incBox candi = Some f"
    and r: "ans_ref = (if ?k = 0 then selfBody else incBody)"
           "ans_inc = (if ?k = 0 then incBody else selfBody)" by blast
  have k: "?k = (if min DBL_MAX ?m0 < min DBL_MAX ?m1 then 0 else 1)"
    by (simp add: SAT_k_def SAT_min_dep_snd SAT_conts_def)
  show ?thesis
  proof (cases "?k = 0")
    case True
    with k have "min DBL_MAX ?m0 < min DBL_MAX ?m1" by (simp split: if_splits)
    then have "?m0 < ?m1" by (simp add: min_def split: if_splits)
    with True r show ?thesis by simp
  next
    case False
    with k have n: "\<not> min DBL_MAX ?m0 < min DBL_MAX ?m1" by (simp split: if_splits)
    from False f have "fst (SAT_min_dep incBox (SAT_conts selfBody incBody candi 1)) = Some f"
      by (simp add: SAT_face_def Let_def SAT_k_def split: if_splits)
    then have "?m1 < DBL_MAX" by (auto dest: SAT_min_dep_fst simp: SAT_conts_def)
    with n have "\<not> ?m0 < ?m1" by (simp add: min_def split: if_splits)
    with False r show ?thesis by simp
  qed
qed

theorem reference_body_choice_witness:
  "map_sum id snd
     (SATFindCollisionProperty diag_A diag_B (local_box (shape diag_A))
        (local_box (shape diag_B)) diag_candi) = Inr (diag_B, diag_A) \<and>
   \<not> min_face_sum (local_box (shape diag_A)) (contacts diag_candi)
      < min_face_sum (local_box (shape diag_B))
          (map (PyBodyObject_GetRelativePos diag_B diag_A) (contacts diag_candi))"
proof -
  obtain c1 where h: "SATFindCollisionProperty diag_A diag_B (local_box (shape diag_A))
      (local_box (shape diag_B)) diag_candi = Inr (c1, diag_B, diag_A)"
    by (simp add: diag_A_def diag_B_def diag_candi_def run_defs)
  have ne: "diag_B \<noteq> diag_A" by (simp add: diag_A_def diag_B_def rect_body_def)
  from reference_body_choice [OF h] ne h show ?thesis
    by (simp split: if_splits)
qed

text \<open>
  Claim C2 as stated fails on the tie: for the two squares shifted by \<open>(1/2, 1/2)\<close> the
  entry point hands over four candidates, the minimum sums of the two bodies are equal,
  and the reference body is the second argument, not the first.
\<close>

theorem tie_picks_second_body_counterexample:
  "RectShapeCollision_candidates diag_A diag_B = Inr (1, diag_candi) \<and>
   min_face_sum (local_box (shape diag_A)) (contacts diag_candi)
     = min_face_sum (local_box (shape diag_B))
         (map (PyBodyObject_GetRelativePos diag_B diag_A) (contacts diag_candi)) \<and>
   map_sum id snd
     (SATFindCollisionProperty diag_A diag_B (local_box (shape diag_A))
        (local_box (shape diag_B)) diag_candi) = Inr (diag_B, diag_A) \<and>
   diag_B \<noteq> diag_A"
proof -
  have "min_face_sum (local_box (shape diag_A)) (contacts diag_candi)
     = min_face_sum (local_box (shape diag_B))
         (map (PyBodyObject_GetRelativePos diag_B diag_A) (contacts diag_candi))"
    by (simp add: diag_A_def diag_B_def diag_candi_def min_face_sum_def body_defs vec_defs
        geo_defs)
  moreover have "map_sum id snd
     (SATFindCollisionProperty diag_A diag_B (local_box (shape diag_A))
        (local_box (shape diag_B)) diag_candi) = Inr (diag_B, diag_A)"
    by (simp add: diag_A_def diag_B_def diag_candi_def run_defs)
  moreover have "diag_B \<noteq> diag_A" by (simp add: diag_A_def diag_B_def rect_body_def)
  ultimately show ?thesis using diag_candidates by blast
qed

section \<open>Contacts that survive the filter\<close>

lemma SAT_min_dep_argmin:
  "fst (SAT_min_dep bx cs) = Some f \<Longrightarrow> (\<Sum>c\<leftarrow>cs. face_dist bx f c) = min_face_sum bx cs"
  by (simp add: SAT_min_dep_def CF_scan_def SAT_min_step_def SAT_deps_sum min_face_sum_def min_def
      split: if_splits)

text \<open>
  Claim C9. When \<open>_SATFindCollisionProperty\<close> returns, every contact left in the
  candidate buffer is the world-space image, under the reference body's transform, of a
  candidate \<open>q\<close> in the reference body's frame that passed the filter: the coordinate
  of \<open>q\<close> on the axis of the chosen face is not near-equal to the coordinate of that
  face of the reference body's box (the \<open>real\<close> part against \<open>left\<close> or \<open>right\<close>,
  the \<open>imag\<close> part against \<open>bottom\<close> or \<open>top\<close>). The chosen face is the face
  the function switches on; its distance sum is the smallest of the four of the reference
  body.
\<close>

theorem surviving_contacts_off_chosen_face:
  assumes "SATFindCollisionProperty selfBody incBody selfBox incBox candi = Inr (c1, ans_ref, ans_inc)"
    and "p \<in> set (contacts c1)"
  shows "\<exists>f q k bx conts.
           k = SAT_k selfBody incBody selfBox incBox candi \<and>
           bx = (if k = 0 then selfBox else incBox) \<and>
           conts = (if k = 0 then contacts candi
                    else map (PyBodyObject_GetRelativePos incBody selfBody) (contacts candi)) \<and>
           ans_ref = (if k = 0 then selfBody else incBody) \<and>
           SAT_face selfBody incBody selfBox incBox candi = Some f \<and>
           (\<Sum>c\<leftarrow>conts. face_dist bx f c) = min_face_sum bx conts \<and>
           q \<in> set conts \<and>
           p = PyBodyObject_GetGlobalPos ans_ref q \<and>
           (case f of
              CF_LEFT \<Rightarrow> \<not> PyMath_IsNearEqual (fst q) (left bx)
            | CF_RIGHT \<Rightarrow> \<not> PyMath_IsNearEqual (fst q) (right bx)
            | CF_BOTTOM \<Rightarrow> \<not> PyMath_IsNearEqual (snd q) (bottom bx)
            | CF_TOP \<Rightarrow> \<not> PyMath_IsNearEqual (snd q) (top' bx))"
proof -
  let ?k = "SAT_k selfBody incBody selfBox incBox candi"
  let ?bx = "if ?k = 0 then selfBox else incBox"
  let ?conts = "if ?k = 0 then contacts candi
                else map (PyBodyObject_GetRelativePos incBody selfBody) (contacts candi)"
  have conts: "SAT_conts selfBody incBody candi ?k = ?conts" by (simp add: SAT_conts_def)
  from SAT_Inr_contacts [OF assms(1)] obtain f
    where f: "SAT_face selfBody incBody selfBox incBox candi = Some f"
      and cs: "contacts c1 = map (PyBodyObject_GetGlobalPos ans_ref)
                 (filter (\<lambda>x. \<not> on_face ?bx f x) ?conts)"
    unfolding conts by blast
  from cs assms(2) obtain q where q: "q \<in> set ?conts" "\<not> on_face ?bx f q"
    "p = PyBodyObject_GetGlobalPos ans_ref q" by auto
  from f have "fst (SAT_min_dep ?bx ?conts) = Some f"
    by (simp add: SAT_face_def Let_def conts)
  then have m: "(\<Sum>c\<leftarrow>?conts. face_dist ?bx f c) = min_face_sum ?bx ?conts"
    by (rule SAT_min_dep_argmin)
  from q(2) have off: "case f of
              CF_LEFT \<Rightarrow> \<not> PyMath_IsNearEqual (fst q) (left ?bx)
            | CF_RIGHT \<Rightarrow> \<not> PyMath_IsNearEqual (fst q) (right ?bx)
            | CF_BOTTOM \<Rightarrow> \<not> PyMath_IsNearEqual (snd q) (bottom ?bx)
            | CF_TOP \<Rightarrow> \<not> PyMath_IsNearEqual (snd q) (top' ?bx)"
    by (cases f) simp_all
  from SAT_Inr_bodies(1) [OF assms(1)] f m q(1,3) off show ?thesis by blast
qed

theorem surviving_contacts_off_chosen_face_witness:
  "SATFindCollisionProperty diag_A diag_B (local_box (shape diag_A)) (local_box (shape diag_B))
     diag_candi = Inr (diag_result, diag_B, diag_A) \<and>
   (1 / 2, 0) \<in> set (contacts diag_result) \<and>
   SAT_k diag_A diag_B (local_box (shape diag_A)) (local_box (shape diag_B)) diag_candi = 1 \<and>
   SAT_face diag_A diag_B (local_box (shape diag_A)) (local_box (shape diag_B)) diag_candi
     = Some CF_LEFT \<and>
   (0, - 1 / 2) \<in> set (map (PyBodyObject_GetRelativePos diag_B diag_A) (contacts diag_candi)) \<and>
   (1 / 2, 0) = PyBodyObject_GetGlobalPos diag_B (0, - 1 / 2) \<and>
   \<not> PyMath_IsNearEqual (fst (0 :: real, - 1 / 2 :: real)) (left (local_box (shape diag_B)))"
proof -
  have h1: "SATFindCollisionProperty diag_A diag_B (local_box (shape diag_A))
      (local_box (shape diag_B)) diag_candi = Inr (diag_result, diag_B, diag_A)"
    by (simp add: diag_A_def diag_B_def diag_candi_def diag_result_def run_defs)
  have h2: "(1 / 2, 0) \<in> set (contacts diag_result)" by (simp add: diag_result_def)
  have k: "SAT_k diag_A diag_B (local_box (shape diag_A)) (local_box (shape diag_B)) diag_candi = 1"
    by (simp add: diag_A_def diag_B_def diag_candi_def run_defs)
  have f: "SAT_face diag_A diag_B (local_box (shape diag_A)) (local_box (shape diag_B)) diag_candi
     = Some CF_LEFT"
    by (simp add: SAT_face_def diag_A_def diag_B_def diag_candi_def run_defs)
  have rest: "(0, - 1 / 2) \<in> set (map (PyBodyObject_GetRelativePos diag_B diag_A) (contacts diag_candi)) \<and>
   (1 / 2, 0) = PyBodyObject_GetGlobalPos diag_B (0, - 1 / 2) \<and>
   \<not> PyMath_IsNearEqual (fst (0 :: real, - 1 / 2 :: real)) (left (local_box (shape diag_B)))"
    by (simp add: diag_A_def diag_B_def diag_candi_def candi0_def body_defs vec_defs geo_defs)
  from surviving_contacts_off_chosen_face [OF h1 h2] h1 h2 k f rest show ?thesis by blast
qed

section \<open>The orientation of the normal\<close>

lemma GlobalPos_diff:
  "c_diff (PyBodyObject_GetGlobalPos b q) (vecPosition b) = PyVector2_Rotate q (fRotation b)"
  by (simp add: PyBodyObject_GetGlobalPos_def c_diff_def c_sum_def)

lemma face_point_dot:
  assumes "origin_inside shp" and "face_dist (local_box shp) f q = 0"
  shows "0 < PyVector2_Dot q (face_normal f)"
  using assms
  by (cases f) (simp_all add: origin_inside_def local_box_def AABB_Gen_def PyVector2_Dot_def)

text \<open>
  Claim C5, as amended. Whenever a collision is reported, for each emitted contact the
  collision normal \<open>n\<close> points out of the reference body through the chosen reference
  face: \<open>(q - p_ref) \<cdot> n > 0\<close> for the world position \<open>q\<close> of every point on the line
  of that face of the reference body's local box, provided the local box of either
  rectangle has the body's origin strictly inside (as for a rectangle built with
  \<open>seta = 0\<close> and positive width and height). Nothing is promised about the sign of
  \<open>(p_inc - p_ref) \<cdot> n\<close>.
\<close>

theorem normal_points_out_of_reference_face:
  assumes "RectShapeCollision selfBody incidBody contactList = Inr (r, contactList')"
    and "c \<in> set (drop (length contactList) contactList')"
    and "origin_inside (shape selfBody)" and "origin_inside (shape incidBody)"
    and "RectShapeCollision_face selfBody incidBody = Some f"
    and "face_dist (local_box (shape (ref_body c))) f q = 0"
  shows "0 < PyVector2_Dot
               (c_diff (PyBodyObject_GetGlobalPos (ref_body c) q) (vecPosition (ref_body c)))
               (cnormal c)"
proof -
  from emitted_contact [OF assms(1,2)] assms(5)
  have n: "cnormal c = PyVector2_Rotate (face_normal f) (fRotation (ref_body c))"
    and b: "ref_body c = selfBody \<or> ref_body c = incidBody" by auto
  from b assms(3,4) have "origin_inside (shape (ref_body c))" by auto
  from face_point_dot [OF this assms(6)] n show ?thesis
    by (simp add: GlobalPos_diff Rotate_Dot)
qed

theorem normal_points_out_of_reference_face_witness:
  "RectShapeCollision diag_A diag_B []
     = Inr (1, [diag_contact (1 / 2, 0) (31 / 20), diag_contact (1 / 2, 1 / 2) (19 / 12)]) \<and>
   diag_contact (1 / 2, 0) (31 / 20)
     \<in> set (drop (length ([] :: PyContact list))
               [diag_contact (1 / 2, 0) (31 / 20), diag_contact (1 / 2, 1 / 2) (19 / 12)]) \<and>
   origin_inside (shape diag_A) \<and> origin_inside (shape diag_B) \<and>
   RectShapeCollision_face diag_A diag_B = Some CF_LEFT \<and>
   face_dist (local_box (shape (ref_body (diag_contact (1 / 2, 0) (31 / 20))))) CF_LEFT
     (- 1 / 2, 1 / 4) = 0 \<and>
   0 < PyVector2_Dot
         (c_diff
            (PyBodyObject_GetGlobalPos (ref_body (diag_contact (1 / 2, 0) (31 / 20)))
               (- 1 / 2, 1 / 4))
            (vecPosition (ref_body (diag_contact (1 / 2, 0) (31 / 20)))))
         (cnormal (diag_contact (1 / 2, 0) (31 / 20)))"
proof -
  have h3: "origin_inside (shape diag_A)"
    by (simp add: origin_inside_def diag_A_def body_defs)
  have h4: "origin_inside (shape diag_B)"
    by (simp add: origin_inside_def diag_B_def body_defs)
  have h6: "face_dist (local_box (shape (ref_body (diag_contact (1 / 2, 0) (31 / 20))))) CF_LEFT
     (- 1 / 2, 1 / 4) = 0"
    by (simp add: diag_contact_def diag_B_def body_defs geo_defs)
  from normal_points_out_of_reference_face [OF diag_collision diag_emitted h3 h4 diag_face h6]
    diag_collision diag_emitted h3 h4 diag_face h6
  show ?thesis by blast
qed

text \<open>
  Claim C5 as stated fails: for the two crossing bars the call returns 1 and emits two
  contacts, and \<open>(p_inc - p_ref) \<cdot> n\<close> is \<open>-3\<close> for both. The first bar is the
  reference body; its bottom and top sums are equal, the scan keeps the bottom face, and
  the second bar's centre lies above.
\<close>

theorem normal_orientation_counterexample:
  "map_sum id (map_prod id (map orientation)) (RectShapeCollision cross_A cross_B [])
     = Inr (1, [- 3, - 3])"
  by (simp add: cross_A_def cross_B_def orientation_def run_defs)

section \<open>A rectangle inside the other\<close>

text \<open>
  Claim C3 does not hold of the code. With the unit square as \<open>selfBody\<close> and the
  \<open>10 \<times> 10\<close> square around it as \<open>incidBody\<close>, no edge of the large square meets
  the small square's box, \<open>_ClipTest\<close> reports the bodies apart and the entry point
  returns 0 before it looks at the corners of \<open>selfBody\<close>; with the arguments swapped
  it returns 1.
\<close>

theorem containment_depends_on_argument_order:
  "RectShapeCollision small_body big_body [] = Inr (0, []) \<and>
   map_sum id fst (RectShapeCollision big_body small_body []) = Inr 1"
  by (simp add: small_body_def big_body_def run_defs)

section \<open>The local box of a rotated rectangle\<close>

text \<open>
  For a rectangle built with \<open>seta = 0\<close> and non-negative width and height the local
  box is the bounding box of the four corners.
\<close>

lemma unrotated_rectangle_local_box:
  assumes "0 \<le> w" and "0 \<le> h"
  shows "local_box (PyRectShape_New w h 0)
           = \<lparr>left = - w / 2, right = w / 2, bottom = - h / 2, top' = h / 2\<rparr>"
    and "foldl AABB_ExpandTo (AABB_Clear (box (PyRectShape_New w h 0)))
           [bottomleft (PyRectShape_New w h 0), bottomright (PyRectShape_New w h 0),
            topright (PyRectShape_New w h 0), topleft (PyRectShape_New w h 0)]
           = \<lparr>left = min DBL_MAX (- w / 2), right = max (- DBL_MAX) (w / 2),
              bottom = min DBL_MAX (- h / 2), top' = max (- DBL_MAX) (h / 2)\<rparr>"
  using assms
  by (simp_all add: local_box_def AABB_Gen_def PyRectShape_New_def RectShape_InitInternal_def
      RectShapeNew_def Rotate_0 AABB_Clear_def AABB_ExpandTo_def min_def max_def)

text \<open>
  Claim C4 does not hold of the code. For the \<open>2 \<times> 1\<close> rectangle built with
  \<open>seta = \<pi>\<close> the entry point's local box has \<open>left = 1\<close>, \<open>right = -1\<close>,
  \<open>bottom = 1/2\<close> and \<open>top = -1/2\<close>, while the box that \<open>_RectShapeUpdateAABB\<close>'s
  method, expanding an empty box over the four corners, gives for the same corners is
  \<open>[-1, 1] \<times> [-1/2, 1/2]\<close>.
\<close>

theorem rotated_rectangle_local_box:
  "local_box (PyRectShape_New 2 1 pi)
     = \<lparr>left = 1, right = - 1, bottom = 1 / 2, top' = - (1 / 2)\<rparr> \<and>
   \<not> left (local_box (PyRectShape_New 2 1 pi)) \<le> right (local_box (PyRectShape_New 2 1 pi)) \<and>
   \<not> bottom (local_box (PyRectShape_New 2 1 pi)) \<le> top' (local_box (PyRectShape_New 2 1 pi)) \<and>
   foldl AABB_ExpandTo (AABB_Clear (box (PyRectShape_New 2 1 pi)))
     [bottomleft (PyRectShape_New 2 1 pi), bottomright (PyRectShape_New 2 1 pi),
      topright (PyRectShape_New 2 1 pi), topleft (PyRectShape_New 2 1 pi)]
     = \<lparr>left = - 1, right = 1, bottom = - (1 / 2), top' = 1 / 2\<rparr>"
  using DBL_MAX_large
  by (simp add: local_box_def AABB_Gen_def PyRectShape_New_def RectShape_InitInternal_def
      RectShapeNew_def PyVector2_Rotate_def AABB_Clear_def AABB_ExpandTo_def)

end
